theory Spec2Isabelle
  imports Main "HOL-Library.AList"
begin

section \<open>Data model\<close>

text \<open>
  A Python \<^verbatim>\<open>str\<close> is a \<^typ>\<open>string\<close>; each \<^typ>\<open>char\<close> stands for one code point, so the
  model covers the strings whose code points are below 256.
\<close>

text \<open>The response models of \<^verbatim>\<open>main.py\<close>, lines 10 to 19.\<close>

record FlightDetails =
  destination :: string
  time :: string
  company :: string
  fnumber :: string
  comment :: "string option"

record DateFlights =
  departures :: "FlightDetails list"
  arrivals :: "FlightDetails list"

text \<open>The enum of lines 22 to 24; its members carry the values \<^verbatim>\<open>"D"\<close> and \<^verbatim>\<open>"A"\<close>.\<close>

datatype MovementType = Departures | Arrivals

fun movement_value :: "MovementType \<Rightarrow> string" where
  "movement_value Departures = ''D''"
| "movement_value Arrivals = ''A''"

text \<open>The dictionaries appended to \<^verbatim>\<open>api_errors\<close> (lines 84, 108, 115 and 122).\<close>

record FetchError =
  date :: string
  movement :: string
  error :: string

text \<open>The \<^verbatim>\<open>detail\<close> of the \<^verbatim>\<open>HTTPException\<close> of line 130.\<close>

record detail =
  message :: string
  errors :: "FetchError list"

text \<open>
  What \<^verbatim>\<open>response.json()\<close> can return. A number keeps its literal: the program never
  looks inside one. \<open>JDict\<close> holds the items of a \<^verbatim>\<open>dict\<close>; a key is looked up from the
  front.
\<close>

datatype json =
    JNull
  | JBool bool
  | JNumber string
  | JString string
  | JList "json list"
  | JDict "(string \<times> json) list"

text \<open>
  The exceptions of the program. \<open>HTTPStatusError\<close> carries \<^verbatim>\<open>e.response.status_code\<close> and
  \<^verbatim>\<open>e.response.text\<close>; \<open>RequestError\<close> and \<open>OtherError\<close> carry whatever identifies
  the exception the HTTP client or the JSON decoder raised; \<open>TypeError\<close> and
  \<open>AttributeError\<close> carry the value that was subscripted or asked for \<^verbatim>\<open>strip\<close>;
  \<open>ValidationError\<close> carries the names of the fields that pydantic refused.
  Only subclasses of \<^verbatim>\<open>Exception\<close> are modelled (a cancelled task or an interpreter
  exit is not an outcome of a fetch).
\<close>

datatype pyexc =
    OverflowError
  | IndexError
  | KeyError string
  | TypeError json
  | AttributeError json
  | ValidationError "string list"
  | HTTPStatusError nat string
  | RequestError string
  | OtherError string
  | HTTPException nat detail

section \<open>Calendar dates\<close>

text \<open>
  The date fields of a \<^verbatim>\<open>datetime\<close>. The time of day is left out: adding or subtracting
  \<^verbatim>\<open>timedelta(days=1)\<close> does not touch it, and \<^verbatim>\<open>get_dates\<close> formats only day, month and
  year.
\<close>

record datetime =
  year :: int
  month :: int
  day :: int

definition MINYEAR :: int where
  "MINYEAR = 1"

definition MAXYEAR :: int where
  "MAXYEAR = 9999"

definition MAXORDINAL :: int where
  "MAXORDINAL = 3652059"

definition is_leap :: "int \<Rightarrow> bool" where
  "is_leap y = (y mod 4 = 0 \<and> (y mod 100 \<noteq> 0 \<or> y mod 400 = 0))"

definition DAYS_IN_MONTH :: "int list" where
  "DAYS_IN_MONTH = [0, 31, 28, 31, 30, 31, 30, 31, 31, 30, 31, 30, 31]"

definition DAYS_BEFORE_MONTH :: "int list" where
  "DAYS_BEFORE_MONTH = [0, 0, 31, 59, 90, 120, 151, 181, 212, 243, 273, 304, 334]"

definition days_in_month :: "int \<Rightarrow> int \<Rightarrow> int" where
  "days_in_month y m = (if m = 2 \<and> is_leap y then 29 else DAYS_IN_MONTH ! nat m)"

definition days_before_month :: "int \<Rightarrow> int \<Rightarrow> int" where
  "days_before_month y m =
     DAYS_BEFORE_MONTH ! nat m + (if 2 < m \<and> is_leap y then 1 else 0)"

definition days_before_year :: "int \<Rightarrow> int" where
  "days_before_year y = (y - 1) * 365 + (y - 1) div 4 - (y - 1) div 100 + (y - 1) div 400"

definition ymd_to_ord :: "int \<Rightarrow> int \<Rightarrow> int \<Rightarrow> int" where
  "ymd_to_ord y m d = days_before_year y + days_before_month y m + d"

text \<open>\<^verbatim>\<open>date.toordinal()\<close>: the day count, 1 for 1 January of year 1.\<close>

definition toordinal :: "datetime \<Rightarrow> int" where
  "toordinal t = ymd_to_ord (year t) (month t) (day t)"

text \<open>The invariant of a \<^verbatim>\<open>datetime\<close> object, which its constructor checks.\<close>

definition valid_datetime :: "datetime \<Rightarrow> bool" where
  "valid_datetime t =
     (MINYEAR \<le> year t \<and> year t \<le> MAXYEAR \<and> 1 \<le> month t \<and> month t \<le> 12 \<and>
      1 \<le> day t \<and> day t \<le> days_in_month (year t) (month t))"

definition DI400Y :: int where
  "DI400Y = 146097"

definition DI100Y :: int where
  "DI100Y = 36524"

definition DI4Y :: int where
  "DI4Y = 1461"

definition ord_to_ymd :: "int \<Rightarrow> int \<times> int \<times> int" where
  "ord_to_ymd ordinal =
     (let n0 = ordinal - 1;
          n400 = n0 div DI400Y; na = n0 mod DI400Y;
          n100 = na div DI100Y; nb = na mod DI100Y;
          n4 = nb div DI4Y; nc = nb mod DI4Y;
          n1 = nc div 365; n = nc mod 365;
          y = n400 * 400 + 1 + n100 * 100 + n4 * 4 + n1
      in if n1 = 4 \<or> n100 = 4 then (y - 1, 12, 31)
         else
           let leapyear = (n1 = 3 \<and> (n4 \<noteq> 24 \<or> n100 = 3));
               m = (n + 50) div 32;
               preceding = DAYS_BEFORE_MONTH ! nat m + (if 2 < m \<and> leapyear then 1 else 0)
           in if n < preceding
              then (y, m - 1, n - (preceding - days_in_month y (m - 1)) + 1)
              else (y, m, n - preceding + 1))"

text \<open>
  \<^verbatim>\<open>normalize_y_m_d\<close> of CPython's datetime module: the month is in range, the day may
  have left its month. One day out of range is moved by hand, anything else goes
  through the ordinal. A year outside \<open>MINYEAR..MAXYEAR\<close> is an \<^verbatim>\<open>OverflowError\<close>.
\<close>

definition normalize_y_m_d :: "int \<Rightarrow> int \<Rightarrow> int \<Rightarrow> pyexc + datetime" where
  "normalize_y_m_d y m d =
     (let dim = days_in_month y m in
      if d < 1 \<or> dim < d then
        (if d = 0 then
           (if 0 < m - 1
            then (if MINYEAR \<le> y \<and> y \<le> MAXYEAR
                  then Inr \<lparr>year = y, month = m - 1, day = days_in_month y (m - 1)\<rparr>
                  else Inl OverflowError)
            else (if MINYEAR \<le> y - 1 \<and> y - 1 \<le> MAXYEAR
                  then Inr \<lparr>year = y - 1, month = 12, day = 31\<rparr>
                  else Inl OverflowError))
         else if d = dim + 1 then
           (if 12 < m + 1
            then (if MINYEAR \<le> y + 1 \<and> y + 1 \<le> MAXYEAR
                  then Inr \<lparr>year = y + 1, month = 1, day = 1\<rparr>
                  else Inl OverflowError)
            else (if MINYEAR \<le> y \<and> y \<le> MAXYEAR
                  then Inr \<lparr>year = y, month = m + 1, day = 1\<rparr>
                  else Inl OverflowError))
         else
           (let ordinal = ymd_to_ord y m 1 + d - 1 in
            if ordinal < 1 \<or> MAXORDINAL < ordinal then Inl OverflowError
            else (case ord_to_ymd ordinal of (y', m', d') \<Rightarrow>
                    Inr \<lparr>year = y', month = m', day = d'\<rparr>)))
      else if MINYEAR \<le> y \<and> y \<le> MAXYEAR
           then Inr \<lparr>year = y, month = m, day = d\<rparr>
           else Inl OverflowError)"

text \<open>
  \<^verbatim>\<open>today + timedelta(days=n)\<close> is \<open>add_datetime_timedelta today n 1\<close> and
  \<^verbatim>\<open>today - timedelta(days=n)\<close> is \<open>add_datetime_timedelta today n (- 1)\<close>.
\<close>

definition add_datetime_timedelta :: "datetime \<Rightarrow> int \<Rightarrow> int \<Rightarrow> pyexc + datetime" where
  "add_datetime_timedelta t delta_days factor =
     normalize_y_m_d (year t) (month t) (day t + delta_days * factor)"

section \<open>Formatting\<close>

definition digit_char :: "nat \<Rightarrow> char" where
  "digit_char n = ''0123456789'' ! n"

text \<open>\<^verbatim>\<open>str(n)\<close> of a natural number.\<close>

fun str_nat :: "nat \<Rightarrow> string" where
  "str_nat n = (if n < 10 then [digit_char n] else str_nat (n div 10) @ [digit_char (n mod 10)])"

declare str_nat.simps [simp del]

definition zfill :: "nat \<Rightarrow> string \<Rightarrow> string" where
  "zfill w s = replicate (w - length s) (CHR ''0'') @ s"

text \<open>
  \<^verbatim>\<open>strftime\<close> with the formats \<^verbatim>\<open>%d\<close>, \<^verbatim>\<open>%m\<close> and \<^verbatim>\<open>%Y\<close>. The day and the month are two
  digits, zero-padded. The year is the decimal number as the C library prints it: CPython
  on glibc (up to version 3.12) does not pad it, so the year 999 is \<^verbatim>\<open>999\<close>; an interpreter
  that pads to four digits, as the documentation of the library has it, differs for the
  years below 1000 only.
\<close>

definition strftime_d :: "datetime \<Rightarrow> string" where
  "strftime_d t = zfill 2 (str_nat (nat (day t)))"

definition strftime_m :: "datetime \<Rightarrow> string" where
  "strftime_m t = zfill 2 (str_nat (nat (month t)))"

definition strftime_Y :: "datetime \<Rightarrow> string" where
  "strftime_Y t = str_nat (nat (year t))"

text \<open>
  \<^verbatim>\<open>str.strip()\<close>: the white space of Python among the code points below 256 is
  tab to carriage return, the four separators 28 to 31, the space, 133 and 160.
\<close>

definition isspace :: "char \<Rightarrow> bool" where
  "isspace c = (of_char c \<in> {9, 10, 11, 12, 13, 28, 29, 30, 31, 32, 133, 160 :: nat})"

definition strip :: "string \<Rightarrow> string" where
  "strip s = rev (dropWhile isspace (rev (dropWhile isspace s)))"

section \<open>The date window (lines 37 to 44)\<close>

text \<open>The argument is the value of \<^verbatim>\<open>datetime.now()\<close>.\<close>

definition get_dates :: "datetime \<Rightarrow> pyexc + string list" where
  "get_dates today =
     (case add_datetime_timedelta today 1 (- 1) of
        Inl e \<Rightarrow> Inl e
      | Inr yesterday \<Rightarrow>
          (case add_datetime_timedelta today 1 1 of
             Inl e \<Rightarrow> Inl e
           | Inr tomorrow \<Rightarrow>
               Inr [strftime_d yesterday, strftime_m yesterday, strftime_Y yesterday,
                    strftime_d today, strftime_m today, strftime_Y today,
                    strftime_d tomorrow, strftime_m tomorrow, strftime_Y tomorrow]))"

section \<open>The aggregator (lines 46 to 135)\<close>

text \<open>
  What one run of the handler depends on outside \<^verbatim>\<open>main.py\<close>: the clock, the upstream
  server as the HTTP client shows it, and the text \<^verbatim>\<open>str(e)\<close> of an exception.
  \<open>client_get w url\<close> is the outcome of lines 79 to 81 for that URL: the exception
  that \<^verbatim>\<open>client.get\<close>, \<^verbatim>\<open>raise_for_status\<close> or \<^verbatim>\<open>response.json\<close> raises, or the decoded
  body.
\<close>

record world =
  clock_now :: datetime
  client_get :: "string \<Rightarrow> pyexc + json"
  exc_str :: "pyexc \<Rightarrow> string"

record state =
  flights_by_date :: "(string \<times> DateFlights) list"
  api_errors :: "FetchError list"

text \<open>
  What an f-string inserts for a movement. From Python 3.11 on a member of an enum with a
  \<^verbatim>\<open>str\<close> mixin is formatted as its name, \<^verbatim>\<open>MovementType.departures\<close> or
  \<^verbatim>\<open>MovementType.arrivals\<close>; up to 3.10 it is formatted as its value, \<^verbatim>\<open>D\<close> or \<^verbatim>\<open>A\<close>.
\<close>

fun format_movement :: "MovementType \<Rightarrow> string" where
  "format_movement Departures = ''MovementType.departures''"
| "format_movement Arrivals = ''MovementType.arrivals''"

text \<open>The f-string of lines 67 to 77.\<close>

definition url :: "MovementType \<Rightarrow> string \<Rightarrow> string \<Rightarrow> string \<Rightarrow> string \<Rightarrow> string" where
  "url mv port dy mo yr =
     ''https://www.oaca.nat.tn/vols/api/flight/filter'' @
     ''?frmmvtCod='' @ format_movement mv @
     ''&frmaeropVil=-1'' @
     ''&frmnumVol='' @
     ''&frmairport='' @ port @
     ''&frmday='' @ dy @
     ''&frmmonth='' @ mo @
     ''&frmacty='' @ yr @
     ''&frmhour=0''"

text \<open>\<^verbatim>\<open>item[key]\<close> with a string key.\<close>

fun getitem :: "json \<Rightarrow> string \<Rightarrow> pyexc + json" where
  "getitem (JDict kvs) k = (case map_of kvs k of None \<Rightarrow> Inl (KeyError k) | Some v \<Rightarrow> Inr v)"
| "getitem v k = Inl (TypeError v)"

text \<open>\<^verbatim>\<open>value.strip()\<close>: only a string has the method.\<close>

fun call_strip :: "json \<Rightarrow> pyexc + json" where
  "call_strip (JString s) = Inr (JString (strip s))"
| "call_strip v = Inl (AttributeError v)"

text \<open>
  The validation of the constructor \<^verbatim>\<open>FlightDetails(...)\<close>: a \<^verbatim>\<open>str\<close> field takes a
  string, the \<^verbatim>\<open>Optional[str]\<close> field a string or \<^verbatim>\<open>None\<close>. This is pydantic 2; pydantic 1
  also takes a number for a \<^verbatim>\<open>str\<close> field and stores its text.
\<close>

fun validate_str :: "json \<Rightarrow> string option" where
  "validate_str (JString s) = Some s"
| "validate_str v = None"

fun validate_optional_str :: "json \<Rightarrow> string option option" where
  "validate_optional_str JNull = Some None"
| "validate_optional_str (JString s) = Some (Some s)"
| "validate_optional_str v = None"

definition invalid_fields :: "json \<Rightarrow> json \<Rightarrow> json \<Rightarrow> json \<Rightarrow> json \<Rightarrow> string list" where
  "invalid_fields dst tm co fn cm =
     (if validate_str dst = None then [''destination''] else []) @
     (if validate_str tm = None then [''time''] else []) @
     (if validate_str co = None then [''company''] else []) @
     (if validate_str fn = None then [''fnumber''] else []) @
     (if validate_optional_str cm = None then [''comment''] else [])"

definition FlightDetails_init ::
  "json \<Rightarrow> json \<Rightarrow> json \<Rightarrow> json \<Rightarrow> json \<Rightarrow> pyexc + FlightDetails" where
  "FlightDetails_init dst tm co fn cm =
     (let refused = Inl (ValidationError (invalid_fields dst tm co fn cm)) in
      case validate_str dst of None \<Rightarrow> refused | Some d \<Rightarrow>
      (case validate_str tm of None \<Rightarrow> refused | Some t \<Rightarrow>
      (case validate_str co of None \<Rightarrow> refused | Some c \<Rightarrow>
      (case validate_str fn of None \<Rightarrow> refused | Some f \<Rightarrow>
      (case validate_optional_str cm of None \<Rightarrow> refused | Some k \<Rightarrow>
         Inr \<lparr>destination = d, time = t, company = c, fnumber = f, comment = k\<rparr>)))))"

text \<open>One element of the comprehension of lines 91 to 99; the arguments are evaluated in order.\<close>

definition make_flight :: "json \<Rightarrow> pyexc + FlightDetails" where
  "make_flight item =
     (case getitem item ''direction'' of Inl e \<Rightarrow> Inl e | Inr direction \<Rightarrow>
     (case getitem item ''heure'' of Inl e \<Rightarrow> Inl e | Inr heure \<Rightarrow>
     (case getitem item ''compagnie'' of Inl e \<Rightarrow> Inl e | Inr compagnie \<Rightarrow>
     (case call_strip compagnie of Inl e \<Rightarrow> Inl e | Inr stripped \<Rightarrow>
     (case getitem item ''numVol'' of Inl e \<Rightarrow> Inl e | Inr numVol \<Rightarrow>
     (case getitem item ''commentaire'' of Inl e \<Rightarrow> Inl e | Inr commentaire \<Rightarrow>
        FlightDetails_init direction heure stripped numVol commentaire))))))"

text \<open>The comprehension: the list is built whole, or the first exception leaves it.\<close>

fun flight_details :: "json list \<Rightarrow> pyexc + FlightDetails list" where
  "flight_details [] = Inr []"
| "flight_details (item # items) =
     (case make_flight item of
        Inl e \<Rightarrow> Inl e
      | Inr f \<Rightarrow> (case flight_details items of Inl e \<Rightarrow> Inl e | Inr fs \<Rightarrow> Inr (f # fs)))"

text \<open>\<^verbatim>\<open>"departures" if movement == "D" else "arrivals"\<close>\<close>

definition movement_label :: "MovementType \<Rightarrow> string" where
  "movement_label mv = (if movement_value mv = ''D'' then ''departures'' else ''arrivals'')"

definition append_error :: "string \<Rightarrow> MovementType \<Rightarrow> string \<Rightarrow> state \<Rightarrow> state" where
  "append_error current_date mv msg st =
     st\<lparr>api_errors := api_errors st @
          [\<lparr>date = current_date, movement = movement_label mv, error = msg\<rparr>]\<rparr>"

text \<open>Lines 102 to 105: \<^verbatim>\<open>extend\<close> on the list of the movement.\<close>

definition extend_flights :: "MovementType \<Rightarrow> FlightDetails list \<Rightarrow> DateFlights \<Rightarrow> DateFlights" where
  "extend_flights mv fds df =
     (if mv = Departures then df\<lparr>departures := departures df @ fds\<rparr>
      else df\<lparr>arrivals := arrivals df @ fds\<rparr>)"

text \<open>
  The body of the \<^verbatim>\<open>try\<close> (lines 79 to 105). \<open>Inl\<close> is the exception that leaves it,
  \<open>Inr\<close> the state when it ends, also through the \<^verbatim>\<open>continue\<close> of line 89.
\<close>

definition try_body :: "world \<Rightarrow> string \<Rightarrow> string \<Rightarrow> MovementType \<Rightarrow> state \<Rightarrow> pyexc + state" where
  "try_body w current_date u mv st =
     (case client_get w u of
        Inl e \<Rightarrow> Inl e
      | Inr data \<Rightarrow>
          (case data of
             JList items \<Rightarrow>
               (case flight_details items of
                  Inl e \<Rightarrow> Inl e
                | Inr fds \<Rightarrow>
                    (case map_of (flights_by_date st) current_date of
                       None \<Rightarrow> Inl (KeyError current_date)
                     | Some df \<Rightarrow>
                         Inr (st\<lparr>flights_by_date :=
                                AList.update current_date (extend_flights mv fds df)
                                  (flights_by_date st)\<rparr>)))
           | _ \<Rightarrow> Inr (append_error current_date mv ''Unexpected response format'' st)))"

text \<open>The \<^verbatim>\<open>try\<close> statement with its three handlers (lines 78 to 126).\<close>

definition process_movement ::
  "world \<Rightarrow> string \<Rightarrow> string \<Rightarrow> string \<Rightarrow> string \<Rightarrow> MovementType \<Rightarrow> state \<Rightarrow> state" where
  "process_movement w current_date dy mo yr mv st =
     (case try_body w current_date (url mv ''djerba'' dy mo yr) mv st of
        Inr st' \<Rightarrow> st'
      | Inl (HTTPStatusError status_code body) \<Rightarrow>
          append_error current_date mv
            (''API error '' @ str_nat status_code @ '': '' @ body) st
      | Inl (RequestError r) \<Rightarrow>
          append_error current_date mv (''Network error: '' @ exc_str w (RequestError r)) st
      | Inl e \<Rightarrow>
          append_error current_date mv (''Unexpected error: '' @ exc_str w e) st)"

text \<open>The body of the loop over the dates (lines 59 to 126).\<close>

definition process_date :: "world \<Rightarrow> string \<Rightarrow> string \<Rightarrow> string \<Rightarrow> state \<Rightarrow> state" where
  "process_date w dy mo yr st =
     (let current_date = dy @ ''-'' @ mo @ ''-'' @ yr;
          st1 = (if map_of (flights_by_date st) current_date = None
                 then st\<lparr>flights_by_date :=
                        AList.update current_date \<lparr>departures = [], arrivals = []\<rparr>
                          (flights_by_date st)\<rparr>
                 else st)
      in fold (process_movement w current_date dy mo yr) [Departures, Arrivals] st1)"

text \<open>\<^verbatim>\<open>range(0, n, 3)\<close>\<close>

definition range3 :: "nat \<Rightarrow> nat list" where
  "range3 n = map (\<lambda>k. 3 * k) [0..<(n + 2) div 3]"

text \<open>
  The loop of line 58 over the indices that are still to come. Reading
  \<^verbatim>\<open>dates[i + 2]\<close> past the end raises \<^verbatim>\<open>IndexError\<close>, outside every \<^verbatim>\<open>try\<close>.
\<close>

fun date_loop :: "world \<Rightarrow> string list \<Rightarrow> nat list \<Rightarrow> state \<Rightarrow> pyexc + state" where
  "date_loop w dates [] st = Inr st"
| "date_loop w dates (i # rest) st =
     (if i + 2 < length dates
      then date_loop w dates rest
             (process_date w (dates ! i) (dates ! (i + 1)) (dates ! (i + 2)) st)
      else Inl IndexError)"

text \<open>The two accumulators when the loops end (line 127).\<close>

definition final_state :: "world \<Rightarrow> pyexc + state" where
  "final_state w =
     (case get_dates (clock_now w) of
        Inl e \<Rightarrow> Inl e
      | Inr dates \<Rightarrow>
          date_loop w dates (range3 (length dates)) \<lparr>flights_by_date = [], api_errors = []\<rparr>)"

text \<open>
  Lines 129 to 135, on the two accumulators. \<open>Inr\<close> is the dictionary that is returned
  (the 200 response), \<open>Inl\<close> the \<^verbatim>\<open>HTTPException\<close> of line 130 (the 500 response with its
  detail).
\<close>

definition respond :: "state \<Rightarrow> pyexc + (string \<times> DateFlights) list" where
  "respond st =
     (if flights_by_date st = [] \<and> api_errors st \<noteq> []
      then Inl (HTTPException 500
             \<lparr>message = ''Unable to fetch flights'', errors = api_errors st\<rparr>)
      else Inr (flights_by_date st))"

text \<open>
  The handler: an exception of \<open>get_dates\<close> or of the loop leaves it as it is, and when the
  loops have ended lines 129 to 135 decide.
\<close>

definition get_djerba_flights :: "world \<Rightarrow> pyexc + (string \<times> DateFlights) list" where
  "get_djerba_flights w =
     (case final_state w of
        Inl e \<Rightarrow> Inl e
      | Inr st \<Rightarrow> respond st)"

section \<open>Notions the properties are stated with\<close>

text \<open>The first and the last date a \<^verbatim>\<open>datetime\<close> can hold.\<close>

definition datetime_min :: datetime where
  "datetime_min = \<lparr>year = MINYEAR, month = 1, day = 1\<rparr>"

definition datetime_max :: datetime where
  "datetime_max = \<lparr>year = MAXYEAR, month = 12, day = 31\<rparr>"

definition is_digit :: "char \<Rightarrow> bool" where
  "is_digit c = (c \<in> set ''0123456789'')"

definition digit_value :: "char \<Rightarrow> nat" where
  "digit_value c = of_char c - 48"

text \<open>The number a string of decimal digits denotes.\<close>

definition dec_value :: "string \<Rightarrow> nat" where
  "dec_value s = foldl (\<lambda>a c. 10 * a + digit_value c) 0 s"

text \<open>\<open>padded w n s\<close>: the string \<open>s\<close> is the number \<open>n\<close> in \<open>w\<close> decimal digits, zero-padded.\<close>

definition padded :: "nat \<Rightarrow> int \<Rightarrow> string \<Rightarrow> bool" where
  "padded w n s = (length s = w \<and> list_all is_digit s \<and> int (dec_value s) = n)"

text \<open>The dictionary key of a date (line 60) and the URL of its request (lines 67 to 77).\<close>

definition date_key :: "datetime \<Rightarrow> string" where
  "date_key t = strftime_d t @ ''-'' @ strftime_m t @ ''-'' @ strftime_Y t"

definition request_url :: "MovementType \<Rightarrow> datetime \<Rightarrow> string" where
  "request_url mv t = url mv ''djerba'' (strftime_d t) (strftime_m t) (strftime_Y t)"

text \<open>The format \<^verbatim>\<open>DD-MM-YYYY\<close>: ten characters, digits but for the two hyphens.\<close>

definition dd_mm_yyyy :: "string \<Rightarrow> bool" where
  "dd_mm_yyyy k =
     (length k = 10 \<and> list_all is_digit (take 2 k) \<and> k ! 2 = CHR ''-'' \<and>
      list_all is_digit (take 2 (drop 3 k)) \<and> k ! 5 = CHR ''-'' \<and>
      list_all is_digit (drop 6 k))"

text \<open>
  \<open>rendered t\<close>: the three strings of \<open>t\<close> are its day and its month in two digits,
  zero-padded, and its year in decimal digits.
\<close>

definition rendered :: "datetime \<Rightarrow> bool" where
  "rendered t =
     (padded 2 (day t) (strftime_d t) \<and> padded 2 (month t) (strftime_m t) \<and>
      list_all is_digit (strftime_Y t) \<and> int (dec_value (strftime_Y t)) = year t)"

text \<open>
  What the request of one URL contributes: \<open>fetched\<close> is the list the comprehension
  of lines 91 to 99 builds from its body (empty when no list is built), \<open>failure\<close> the
  message of the error recorded for it, if one is.
\<close>

definition fetched :: "world \<Rightarrow> string \<Rightarrow> FlightDetails list" where
  "fetched w u =
     (case client_get w u of
        Inr (JList items) \<Rightarrow> (case flight_details items of Inr fds \<Rightarrow> fds | Inl e \<Rightarrow> [])
      | _ \<Rightarrow> [])"

definition failure :: "world \<Rightarrow> string \<Rightarrow> string option" where
  "failure w u =
     (case client_get w u of
        Inl (HTTPStatusError status_code body) \<Rightarrow>
          Some (''API error '' @ str_nat status_code @ '': '' @ body)
      | Inl (RequestError r) \<Rightarrow> Some (''Network error: '' @ exc_str w (RequestError r))
      | Inl e \<Rightarrow> Some (''Unexpected error: '' @ exc_str w e)
      | Inr (JList items) \<Rightarrow>
          (case flight_details items of
             Inl e \<Rightarrow> Some (''Unexpected error: '' @ exc_str w e)
           | Inr fds \<Rightarrow> None)
      | Inr data \<Rightarrow> Some ''Unexpected response format'')"

definition error_entries :: "string \<Rightarrow> MovementType \<Rightarrow> string option \<Rightarrow> FetchError list" where
  "error_entries k mv f =
     (case f of
        None \<Rightarrow> []
      | Some msg \<Rightarrow> [\<lparr>date = k, movement = movement_label mv, error = msg\<rparr>])"

text \<open>The flights and the errors of the fetch for one date and one movement.\<close>

definition produced :: "world \<Rightarrow> MovementType \<Rightarrow> datetime \<Rightarrow> FlightDetails list" where
  "produced w mv t = fetched w (request_url mv t)"

definition recorded :: "world \<Rightarrow> MovementType \<Rightarrow> datetime \<Rightarrow> FetchError list" where
  "recorded w mv t = error_entries (date_key t) mv (failure w (request_url mv t))"

text \<open>The exceptions that mapping a record can raise.\<close>

fun mapping_error :: "pyexc \<Rightarrow> bool" where
  "mapping_error (KeyError k) = True"
| "mapping_error (TypeError v) = True"
| "mapping_error (AttributeError v) = True"
| "mapping_error (ValidationError fs) = True"
| "mapping_error e = False"

text \<open>The errors in a list that carry a given date and movement.\<close>

definition errors_for :: "string \<Rightarrow> MovementType \<Rightarrow> FetchError list \<Rightarrow> FetchError list" where
  "errors_for k mv es = filter (\<lambda>e. date e = k \<and> movement e = movement_label mv) es"

text \<open>
  \<open>window Y T M\<close>: \<open>T\<close> is a valid date, \<open>Y\<close> is \<open>T\<close> minus one day and \<open>M\<close> is \<open>T\<close> plus
  one day, as \<open>get_dates\<close> computes them.
\<close>

definition window :: "datetime \<Rightarrow> datetime \<Rightarrow> datetime \<Rightarrow> bool" where
  "window Y T M =
     (valid_datetime T \<and> add_datetime_timedelta T 1 (- 1) = Inr Y \<and>
      add_datetime_timedelta T 1 1 = Inr M)"

text \<open>The list of one movement in the dictionary, under a key (empty when the key is absent).\<close>

definition flights_of :: "(string \<times> DateFlights) list \<Rightarrow> string \<Rightarrow> MovementType \<Rightarrow> FlightDetails list" where
  "flights_of fb k mv =
     (case map_of fb k of
        None \<Rightarrow> []
      | Some df \<Rightarrow> if mv = Departures then departures df else arrivals df)"

text \<open>A fetch fails when an error is recorded for it.\<close>

definition fetch_fails :: "world \<Rightarrow> MovementType \<Rightarrow> datetime \<Rightarrow> bool" where
  "fetch_fails w mv t = (failure w (request_url mv t) \<noteq> None)"

fun is_list :: "json \<Rightarrow> bool" where
  "is_list (JList items) = True"
| "is_list v = False"

text \<open>
  \<open>describes item f\<close>: the record \<open>item\<close> of an upstream body carries the five fields as
  strings (the comment may be null), and \<open>f\<close> holds them, the company stripped.
\<close>

definition describes :: "json \<Rightarrow> FlightDetails \<Rightarrow> bool" where
  "describes item f =
     (case item of
        JDict kvs \<Rightarrow>
          map_of kvs ''direction'' = Some (JString (destination f)) \<and>
          map_of kvs ''heure'' = Some (JString (time f)) \<and>
          (case map_of kvs ''compagnie'' of
             Some (JString c) \<Rightarrow> company f = strip c
           | _ \<Rightarrow> False) \<and>
          map_of kvs ''numVol'' = Some (JString (fnumber f)) \<and>
          map_of kvs ''commentaire'' =
            Some (case comment f of None \<Rightarrow> JNull | Some s \<Rightarrow> JString s)
      | _ \<Rightarrow> False)"

section \<open>Sample runs\<close>

definition sample_yesterday :: datetime where
  "sample_yesterday = \<lparr>year = 2024, month = 3, day = 14\<rparr>"

definition sample_today :: datetime where
  "sample_today = \<lparr>year = 2024, month = 3, day = 15\<rparr>"

definition sample_tomorrow :: datetime where
  "sample_tomorrow = \<lparr>year = 2024, month = 3, day = 16\<rparr>"

definition sample_exc_str :: "pyexc \<Rightarrow> string" where
  "sample_exc_str e =
     (case e of
        KeyError k \<Rightarrow> [CHR 0x27] @ k @ [CHR 0x27]
      | RequestError r \<Rightarrow> r
      | OtherError r \<Rightarrow> r
      | _ \<Rightarrow> ''error'')"

text \<open>Every request fails in the network.\<close>

definition world_down :: world where
  "world_down =
     \<lparr>clock_now = sample_today,
      client_get = (\<lambda>u. Inl (RequestError ''All connection attempts failed'')),
      exc_str = sample_exc_str\<rparr>"

text \<open>Every request fails in the network, on 15 June 999 and on the last day of the range.\<close>

definition world_999 :: world where
  "world_999 =
     \<lparr>clock_now = \<lparr>year = 999, month = 6, day = 15\<rparr>,
      client_get = (\<lambda>u. Inl (RequestError ''All connection attempts failed'')),
      exc_str = sample_exc_str\<rparr>"

definition world_last_day :: world where
  "world_last_day =
     \<lparr>clock_now = datetime_max,
      client_get = (\<lambda>u. Inl (RequestError ''All connection attempts failed'')),
      exc_str = sample_exc_str\<rparr>"

definition nouvelair_record :: json where
  "nouvelair_record =
     JDict [(''direction'', JString ''TUN''), (''heure'', JString ''14:30''),
            (''compagnie'', JString ''Nouvelair''), (''numVol'', JString ''BJ101''),
            (''commentaire'', JNull)]"

definition nouvelair_flight :: FlightDetails where
  "nouvelair_flight =
     \<lparr>destination = ''TUN'', time = ''14:30'', company = ''Nouvelair'', fnumber = ''BJ101'',
      comment = None\<rparr>"

definition tunisair_record :: json where
  "tunisair_record =
     JDict [(''direction'', JString ''PARIS''), (''heure'', JString ''09:05''),
            (''compagnie'', JString '' TunisAir ''), (''numVol'', JString ''TU718''),
            (''commentaire'', JString ''Retard'')]"

definition tunisair_flight :: FlightDetails where
  "tunisair_flight =
     \<lparr>destination = ''PARIS'', time = ''09:05'', company = ''TunisAir'', fnumber = ''TU718'',
      comment = Some ''Retard''\<rparr>"

definition broken_record :: json where
  "broken_record =
     JDict [(''direction'', JString ''LYON''), (''heure'', JString ''11:00''),
            (''compagnie'', JString ''Transavia''), (''commentaire'', JNull)]"

text \<open>
  One request of each kind: for yesterday an HTTP error and a network failure, for today
  the mocked departures and an arrivals body that is an object, for tomorrow a departures
  list whose second record lacks \<^verbatim>\<open>numVol\<close> and a good arrivals list.
\<close>

definition sample_get :: "string \<Rightarrow> pyexc + json" where
  "sample_get u =
     (if u = request_url Departures sample_yesterday
        then Inl (HTTPStatusError 503 ''Service Unavailable'')
      else if u = request_url Arrivals sample_yesterday
        then Inl (RequestError ''timed out'')
      else if u = request_url Departures sample_today
        then Inr (JList [nouvelair_record])
      else if u = request_url Arrivals sample_today
        then Inr (JDict [(''status'', JString ''maintenance'')])
      else if u = request_url Departures sample_tomorrow
        then Inr (JList [tunisair_record, broken_record])
      else if u = request_url Arrivals sample_tomorrow
        then Inr (JList [tunisair_record])
      else Inl (OtherError ''no such request''))"

definition sample_world :: world where
  "sample_world =
     \<lparr>clock_now = sample_today, client_get = sample_get, exc_str = sample_exc_str\<rparr>"

text \<open>The accumulators at the end of the run in which every request fails.\<close>

definition down_error :: "string \<Rightarrow> string \<Rightarrow> FetchError" where
  "down_error k m =
     \<lparr>date = k, movement = m, error = ''Network error: All connection attempts failed''\<rparr>"

definition down_state :: state where
  "down_state =
     \<lparr>flights_by_date =
        [(''14-03-2024'', \<lparr>departures = [], arrivals = []\<rparr>),
         (''15-03-2024'', \<lparr>departures = [], arrivals = []\<rparr>),
         (''16-03-2024'', \<lparr>departures = [], arrivals = []\<rparr>)],
      api_errors =
        [down_error ''14-03-2024'' ''departures'', down_error ''14-03-2024'' ''arrivals'',
         down_error ''15-03-2024'' ''departures'', down_error ''15-03-2024'' ''arrivals'',
         down_error ''16-03-2024'' ''departures'', down_error ''16-03-2024'' ''arrivals'']\<rparr>"

text \<open>The accumulators at the end of the sample run.\<close>

definition sample_state :: state where
  "sample_state =
     \<lparr>flights_by_date =
        [(''14-03-2024'', \<lparr>departures = [], arrivals = []\<rparr>),
         (''15-03-2024'', \<lparr>departures = [nouvelair_flight], arrivals = []\<rparr>),
         (''16-03-2024'', \<lparr>departures = [], arrivals = [tunisair_flight]\<rparr>)],
      api_errors =
        [\<lparr>date = ''14-03-2024'', movement = ''departures'',
          error = ''API error 503: Service Unavailable''\<rparr>,
         \<lparr>date = ''14-03-2024'', movement = ''arrivals'',
          error = ''Network error: timed out''\<rparr>,
         \<lparr>date = ''15-03-2024'', movement = ''arrivals'',
          error = ''Unexpected response format''\<rparr>,
         \<lparr>date = ''16-03-2024'', movement = ''departures'',
          error = ''Unexpected error: '' @ sample_exc_str (KeyError ''numVol'')\<rparr>]\<rparr>"

section \<open>Properties of the calendar\<close>

lemma div_step:
  fixes y k :: int
  assumes "0 < k"
  shows "y div k = (y - 1) div k + (if y mod k = 0 then 1 else 0)"
proof -
  define q where "q = (y - 1) div k"
  define r where "r = (y - 1) mod k"
  have r: "0 \<le> r" "r < k"
    using assms by (simp_all add: r_def)
  have y: "y = k * q + (r + 1)"
    unfolding q_def r_def by simp
  show ?thesis
  proof (cases "r + 1 = k")
    case True
    then have "y = k * (q + 1) + 0"
      using y by (simp add: algebra_simps)
    then have "y div k = q + 1" "y mod k = 0"
      using assms by (auto intro: int_div_pos_eq)
    then show ?thesis
      by (simp add: q_def)
  next
    case False
    then have b: "0 \<le> r + 1" "r + 1 < k"
      using r by simp_all
    have "y div k = q"
      using y b by (rule int_div_pos_eq)
    moreover have "y mod k = r + 1"
      using y b by (rule int_mod_pos_eq)
    ultimately show ?thesis
      using r by (simp add: q_def)
  qed
qed

lemma leap_count:
  fixes y :: int
  shows "(if y mod 4 = 0 then 1 else 0) - (if y mod 100 = 0 then 1 else 0)
        + (if y mod 400 = 0 then 1 else 0) = (if is_leap y then 1 else (0::int))"
proof -
  have m1: "y mod 100 = 0" if "y mod 400 = 0"
  proof -
    have "(100::int) dvd 400" by simp
    then show ?thesis using that by (meson dvd_trans mod_eq_0_iff_dvd)
  qed
  have m2: "y mod 4 = 0" if "y mod 100 = 0"
  proof -
    have "(4::int) dvd 100" by simp
    then show ?thesis using that by (meson dvd_trans mod_eq_0_iff_dvd)
  qed
  show ?thesis
  proof (cases "y mod 400 = 0")
    case True
    with m1 have "y mod 100 = 0" by blast
    with m2 have "y mod 4 = 0" by blast
    with True \<open>y mod 100 = 0\<close> show ?thesis by (simp add: is_leap_def)
  next
    case n400: False
    show ?thesis
    proof (cases "y mod 100 = 0")
      case True
      with m2 have "y mod 4 = 0" by blast
      with True n400 show ?thesis by (simp add: is_leap_def)
    next
      case False
      with n400 show ?thesis by (simp add: is_leap_def)
    qed
  qed
qed

lemma days_before_year_unfold:
  fixes y a b c :: int
  assumes d4: "y div 4 = (y - 1) div 4 + a"
    and d100: "y div 100 = (y - 1) div 100 + b"
    and d400: "y div 400 = (y - 1) div 400 + c"
  shows "y * 365 + y div 4 - y div 100 + y div 400 = days_before_year y + 365 + (a - b + c)"
  unfolding days_before_year_def d4 d100 d400 by (simp add: algebra_simps)

lemma days_before_year_Suc:
  "days_before_year (y + 1) = days_before_year y + 365 + (if is_leap y then 1 else 0)"
proof -
  have d4: "y div 4 = (y - 1) div 4 + (if y mod 4 = 0 then 1 else 0)"
    by (rule div_step) simp
  have d100: "y div 100 = (y - 1) div 100 + (if y mod 100 = 0 then 1 else 0)"
    by (rule div_step) simp
  have d400: "y div 400 = (y - 1) div 400 + (if y mod 400 = 0 then 1 else 0)"
    by (rule div_step) simp
  have "days_before_year (y + 1) = y * 365 + y div 4 - y div 100 + y div 400"
    by (simp add: days_before_year_def)
  also have "\<dots> = days_before_year y + 365 +
      ((if y mod 4 = 0 then 1 else 0) - (if y mod 100 = 0 then 1 else 0)
        + (if y mod 400 = 0 then 1 else 0))"
    by (rule days_before_year_unfold [OF d4 d100 d400])
  also have "\<dots> = days_before_year y + 365 + (if is_leap y then 1 else 0)"
    by (simp only: leap_count)
  finally show ?thesis .
qed

lemma month_cases:
  "1 \<le> m \<Longrightarrow> m \<le> 12 \<Longrightarrow> m \<in> {1, 2, 3, 4, 5, 6, 7, 8, 9, 10, 11, 12 :: int}"
  by simp arith

lemma days_in_month_bounds:
  "1 \<le> m \<Longrightarrow> m \<le> 12 \<Longrightarrow> 28 \<le> days_in_month y m \<and> days_in_month y m \<le> 31"
  using month_cases [of m] by (auto simp: days_in_month_def DAYS_IN_MONTH_def)

lemma days_before_month_Suc:
  "1 \<le> m \<Longrightarrow> m < 12 \<Longrightarrow>
   days_before_month y (m + 1) = days_before_month y m + days_in_month y m"
  using month_cases [of m]
  by (auto simp: days_before_month_def days_in_month_def DAYS_IN_MONTH_def DAYS_BEFORE_MONTH_def)

lemma days_before_month_12:
  "days_before_month y 12 + 31 = 365 + (if is_leap y then 1 else 0)"
  by (simp add: days_before_month_def DAYS_BEFORE_MONTH_def)

lemma days_before_month_1: "days_before_month y 1 = 0"
  by (simp add: days_before_month_def DAYS_BEFORE_MONTH_def)

lemma days_in_month_12: "days_in_month y 12 = 31"
  by (simp add: days_in_month_def DAYS_IN_MONTH_def)

lemma tomorrow_exists:
  assumes v: "valid_datetime T" and nmax: "T \<noteq> datetime_max"
  shows "\<exists>M. add_datetime_timedelta T 1 1 = Inr M \<and> valid_datetime M \<and>
           toordinal M = toordinal T + 1"
proof -
  obtain y m d where T: "T = \<lparr>year = y, month = m, day = d\<rparr>"
    by (cases T) auto
  from v T have y: "1 \<le> y" "y \<le> 9999" and m: "1 \<le> m" "m \<le> 12"
    and d: "1 \<le> d" "d \<le> days_in_month y m"
    by (simp_all add: valid_datetime_def MINYEAR_def MAXYEAR_def)
  show ?thesis
  proof (cases "d < days_in_month y m")
    case True
    then have "add_datetime_timedelta T 1 1 = Inr \<lparr>year = y, month = m, day = d + 1\<rparr>"
      using y d by (simp add: T add_datetime_timedelta_def normalize_y_m_d_def MINYEAR_def MAXYEAR_def)
    moreover have "valid_datetime \<lparr>year = y, month = m, day = d + 1\<rparr>"
      using True y m d by (simp add: valid_datetime_def MINYEAR_def MAXYEAR_def)
    moreover have "toordinal \<lparr>year = y, month = m, day = d + 1\<rparr> = toordinal T + 1"
      by (simp add: T toordinal_def ymd_to_ord_def)
    ultimately show ?thesis by blast
  next
    case False
    with d have dim: "d = days_in_month y m" by simp
    show ?thesis
    proof (cases "m = 12")
      case True
      with dim have d31: "d = 31" by (simp add: days_in_month_12)
      from nmax T True d31 y have y': "y + 1 \<le> 9999"
        by (auto simp: datetime_max_def MAXYEAR_def)
      have "add_datetime_timedelta T 1 1 = Inr \<lparr>year = y + 1, month = 1, day = 1\<rparr>"
        using y y' True d31
        by (simp add: T add_datetime_timedelta_def normalize_y_m_d_def MINYEAR_def MAXYEAR_def
            days_in_month_12)
      moreover have "valid_datetime \<lparr>year = y + 1, month = 1, day = 1\<rparr>"
        using y y' by (simp add: valid_datetime_def MINYEAR_def MAXYEAR_def days_in_month_def
            DAYS_IN_MONTH_def)
      moreover have "toordinal \<lparr>year = y + 1, month = 1, day = 1\<rparr> = toordinal T + 1"
        using days_before_month_12 [of y]
        by (simp add: T True d31 toordinal_def ymd_to_ord_def days_before_year_Suc
            days_before_month_1)
      ultimately show ?thesis by blast
    next
      case False
      with m have m': "m < 12" by simp
      have b: "28 \<le> days_in_month y m"
        using days_in_month_bounds [of m y] m by simp
      have "add_datetime_timedelta T 1 1 = Inr \<lparr>year = y, month = m + 1, day = 1\<rparr>"
        using y m' dim b
        by (simp add: T add_datetime_timedelta_def normalize_y_m_d_def MINYEAR_def MAXYEAR_def)
      moreover have "valid_datetime \<lparr>year = y, month = m + 1, day = 1\<rparr>"
        using y m m' days_in_month_bounds [of "m + 1" y]
        by (simp add: valid_datetime_def MINYEAR_def MAXYEAR_def)
      moreover have "toordinal \<lparr>year = y, month = m + 1, day = 1\<rparr> = toordinal T + 1"
        using m m' by (simp add: T dim toordinal_def ymd_to_ord_def days_before_month_Suc)
      ultimately show ?thesis by blast
    qed
  qed
qed

lemma yesterday_exists:
  assumes v: "valid_datetime T" and nmin: "T \<noteq> datetime_min"
  shows "\<exists>Y. add_datetime_timedelta T 1 (- 1) = Inr Y \<and> valid_datetime Y \<and>
           toordinal Y = toordinal T - 1 \<and>
           (month T = 1 \<and> day T = 1 \<longrightarrow> Y = \<lparr>year = year T - 1, month = 12, day = 31\<rparr>)"
proof -
  obtain y m d where T: "T = \<lparr>year = y, month = m, day = d\<rparr>"
    by (cases T) auto
  from v T have y: "1 \<le> y" "y \<le> 9999" and m: "1 \<le> m" "m \<le> 12"
    and d: "1 \<le> d" "d \<le> days_in_month y m"
    by (simp_all add: valid_datetime_def MINYEAR_def MAXYEAR_def)
  show ?thesis
  proof (cases "1 < d")
    case True
    then have "add_datetime_timedelta T 1 (- 1) = Inr \<lparr>year = y, month = m, day = d - 1\<rparr>"
      using y d by (simp add: T add_datetime_timedelta_def normalize_y_m_d_def MINYEAR_def MAXYEAR_def)
    moreover have "valid_datetime \<lparr>year = y, month = m, day = d - 1\<rparr>"
      using True y m d by (simp add: valid_datetime_def MINYEAR_def MAXYEAR_def)
    moreover have "toordinal \<lparr>year = y, month = m, day = d - 1\<rparr> = toordinal T - 1"
      by (simp add: T toordinal_def ymd_to_ord_def)
    ultimately show ?thesis using True by (simp add: T)
  next
    case False
    with d have d1: "d = 1" by simp
    show ?thesis
    proof (cases "m = 1")
      case True
      from nmin T True d1 y have y': "1 \<le> y - 1"
        by (auto simp: datetime_min_def MINYEAR_def)
      have "add_datetime_timedelta T 1 (- 1) = Inr \<lparr>year = y - 1, month = 12, day = 31\<rparr>"
        using y y' True d1
        by (simp add: T add_datetime_timedelta_def normalize_y_m_d_def MINYEAR_def MAXYEAR_def)
      moreover have "valid_datetime \<lparr>year = y - 1, month = 12, day = 31\<rparr>"
        using y y' by (simp add: valid_datetime_def MINYEAR_def MAXYEAR_def days_in_month_12)
      moreover have "toordinal \<lparr>year = y - 1, month = 12, day = 31\<rparr> = toordinal T - 1"
        using days_before_month_12 [of "y - 1"] days_before_year_Suc [of "y - 1"]
        by (simp add: T True d1 toordinal_def ymd_to_ord_def days_before_month_1)
      ultimately show ?thesis by (simp add: T)
    next
      case False
      with m have m': "1 < m" by simp
      have b: "28 \<le> days_in_month y (m - 1)" "days_in_month y (m - 1) \<le> 31"
        using days_in_month_bounds [of "m - 1" y] m m' by simp_all
      have "add_datetime_timedelta T 1 (- 1) =
          Inr \<lparr>year = y, month = m - 1, day = days_in_month y (m - 1)\<rparr>"
        using y m' d1
        by (simp add: T add_datetime_timedelta_def normalize_y_m_d_def MINYEAR_def MAXYEAR_def)
      moreover have "valid_datetime \<lparr>year = y, month = m - 1, day = days_in_month y (m - 1)\<rparr>"
        using y m m' b by (simp add: valid_datetime_def MINYEAR_def MAXYEAR_def)
      moreover have "toordinal \<lparr>year = y, month = m - 1, day = days_in_month y (m - 1)\<rparr> =
          toordinal T - 1"
        using m m' days_before_month_Suc [of "m - 1" y]
        by (simp add: T d1 toordinal_def ymd_to_ord_def)
      ultimately show ?thesis using False by (simp add: T)
    qed
  qed
qed

lemma digit_cases:
  "n < 10 \<Longrightarrow> n \<in> {0, 1, 2, 3, 4, 5, 6, 7, 8, 9 :: nat}"
  by auto

lemma digit_char_props:
  assumes "n < 10"
  shows "is_digit (digit_char n)" and "digit_value (digit_char n) = n"
  using digit_cases [OF assms]
  by (auto simp: is_digit_def digit_value_def digit_char_def)

lemma str_nat_digits: "list_all is_digit (str_nat n)"
proof (induction n rule: str_nat.induct)
  case (1 n)
  show ?case
  proof (cases "n < 10")
    case True
    then show ?thesis
      by (subst str_nat.simps) (simp add: digit_char_props)
  next
    case False
    then have "list_all is_digit (str_nat (n div 10))"
      using "1.IH" by simp
    moreover have "is_digit (digit_char (n mod 10))"
      by (rule digit_char_props) simp
    ultimately show ?thesis
      using False by (subst str_nat.simps) simp
  qed
qed

lemma dec_value_snoc: "dec_value (s @ [c]) = 10 * dec_value s + digit_value c"
  by (simp add: dec_value_def)

lemma dec_value_str_nat: "dec_value (str_nat n) = n"
proof (induction n rule: str_nat.induct)
  case (1 n)
  show ?case
  proof (cases "n < 10")
    case True
    then show ?thesis
      by (subst str_nat.simps) (simp add: dec_value_def digit_char_props)
  next
    case False
    then have "dec_value (str_nat (n div 10)) = n div 10"
      using "1.IH" by simp
    moreover have "digit_value (digit_char (n mod 10)) = n mod 10"
      by (rule digit_char_props) simp
    ultimately show ?thesis
      using False by (subst str_nat.simps) (simp add: dec_value_snoc)
  qed
qed

lemma str_nat_length: "0 < k \<Longrightarrow> n < 10 ^ k \<Longrightarrow> length (str_nat n) \<le> k"
proof (induction n arbitrary: k rule: str_nat.induct)
  case (1 n)
  show ?case
  proof (cases "n < 10")
    case True
    then show ?thesis
      using "1.prems" by (subst str_nat.simps) simp
  next
    case False
    with "1.prems" have k: "1 < k"
      by (cases "k = 1") auto
    then obtain j where j: "k = Suc j" "0 < j"
      by (cases k) auto
    have "n div 10 < 10 ^ j"
      using "1.prems" j by (simp add: less_mult_imp_div_less mult.commute)
    then have "length (str_nat (n div 10)) \<le> j"
      using "1.IH" [of j] False j by simp
    then show ?thesis
      using False j by (subst str_nat.simps) simp
  qed
qed

lemma str_nat_nonempty: "str_nat n \<noteq> []"
  by (subst str_nat.simps) simp

lemma dec_value_zeros: "dec_value (replicate k (CHR ''0'') @ s) = dec_value s"
proof -
  have "foldl (\<lambda>a c. 10 * a + digit_value c) 0 (replicate k (CHR ''0'')) = 0"
    by (induction k) (simp_all add: digit_value_def)
  then show ?thesis
    by (simp add: dec_value_def)
qed

lemma zeros_digits: "list_all is_digit (replicate k (CHR ''0''))"
  by (induction k) (simp_all add: is_digit_def)

lemma padded_zfill:
  assumes "0 < w" and "0 \<le> n" and "n < 10 ^ w"
  shows "padded w n (zfill w (str_nat (nat n)))"
proof -
  have "nat n < 10 ^ w"
    using assms by (simp add: nat_less_iff)
  then have "length (str_nat (nat n)) \<le> w"
    using assms(1) by (rule str_nat_length [rotated])
  then have "length (zfill w (str_nat (nat n))) = w"
    by (simp add: zfill_def)
  moreover have "list_all is_digit (zfill w (str_nat (nat n)))"
    by (simp add: zfill_def str_nat_digits zeros_digits)
  moreover have "int (dec_value (zfill w (str_nat (nat n)))) = n"
    using assms(2) by (simp add: zfill_def dec_value_zeros dec_value_str_nat)
  ultimately show ?thesis
    by (simp add: padded_def)
qed

lemma valid_rendered:
  assumes "valid_datetime t"
  shows "rendered t"
proof -
  from assms have y: "1 \<le> year t" "year t \<le> 9999" and m: "1 \<le> month t" "month t \<le> 12"
    and d: "1 \<le> day t" "day t \<le> days_in_month (year t) (month t)"
    by (simp_all add: valid_datetime_def MINYEAR_def MAXYEAR_def)
  have "day t \<le> 31"
    using days_in_month_bounds [of "month t" "year t"] m d by simp
  then have "padded 2 (day t) (strftime_d t)"
    unfolding strftime_d_def using d by (intro padded_zfill) simp_all
  moreover have "padded 2 (month t) (strftime_m t)"
    unfolding strftime_m_def using m by (intro padded_zfill) simp_all
  moreover have "list_all is_digit (strftime_Y t)"
    by (simp add: strftime_Y_def str_nat_digits)
  moreover have "int (dec_value (strftime_Y t)) = year t"
    using y by (simp add: strftime_Y_def dec_value_str_nat)
  ultimately show ?thesis
    by (simp add: rendered_def)
qed

lemma str_nat_four:
  assumes "1000 \<le> n" and "n < 10000"
  shows "length (str_nat n) = 4"
proof -
  have a: "\<not> n < 10" "\<not> n div 10 < 10" "\<not> n div 10 div 10 < 10"
    "n div 10 div 10 div 10 < 10"
    using assms by simp_all
  show ?thesis
    apply (subst str_nat.simps)
    apply (simp only: a if_False)
    apply (subst str_nat.simps)
    apply (simp only: a if_False)
    apply (subst str_nat.simps)
    apply (simp only: a if_False)
    apply (subst str_nat.simps)
    apply (simp only: a if_True)
    apply simp
    done
qed

lemma valid_four_digits:
  assumes "valid_datetime t" and "1000 \<le> year t"
  shows "padded 4 (year t) (strftime_Y t)"
proof -
  from assms(1) have y: "year t \<le> 9999"
    by (simp add: valid_datetime_def MAXYEAR_def)
  with assms(2) have "length (str_nat (nat (year t))) = 4"
    by (intro str_nat_four) simp_all
  then show ?thesis
    using valid_rendered [OF assms(1)]
    by (simp add: padded_def rendered_def strftime_Y_def)
qed

lemma rendered_key_format:
  assumes "rendered t" and "padded 4 (year t) (strftime_Y t)"
  shows "dd_mm_yyyy (date_key t)"
proof -
  from assms have l: "length (strftime_d t) = 2" "length (strftime_m t) = 2"
      "length (strftime_Y t) = 4"
    and g: "list_all is_digit (strftime_d t)" "list_all is_digit (strftime_m t)"
      "list_all is_digit (strftime_Y t)"
    by (simp_all add: rendered_def padded_def)
  show ?thesis
    using l g by (simp add: dd_mm_yyyy_def date_key_def nth_append)
qed

lemma rendered_key_inj:
  assumes a: "rendered a" and b: "rendered b" and k: "date_key a = date_key b"
  shows "a = b"
proof -
  from a b have l: "length (strftime_d a) = length (strftime_d b)"
      "length (strftime_m a) = length (strftime_m b)"
    by (simp_all add: rendered_def padded_def)
  from k l have "strftime_d a = strftime_d b" "strftime_m a = strftime_m b"
      "strftime_Y a = strftime_Y b"
    by (simp_all add: date_key_def)
  with a b have "day a = day b" "month a = month b" "year a = year b"
    by (auto simp: rendered_def padded_def)
  then show ?thesis
    by simp
qed

lemma days_before_year_mono: "y \<le> y' \<Longrightarrow> days_before_year y \<le> days_before_year y'"
proof (induction y' rule: int_ge_induct)
  case base
  show ?case by simp
next
  case (step i)
  have "days_before_year i \<le> days_before_year (i + 1)"
    by (simp add: days_before_year_Suc)
  with step.IH show ?case by simp
qed

lemma days_before_month_mono:
  assumes "1 \<le> m" "m \<le> m'" "m' \<le> 12"
  shows "days_before_month y m \<le> days_before_month y m'"
proof -
  have "1 \<le> m'" "m \<le> 12" using assms by simp_all
  then show ?thesis
    using month_cases [of m] month_cases [of m'] assms
    by (auto simp: days_before_month_def DAYS_BEFORE_MONTH_def)
qed

lemma day_of_year_bounds:
  assumes "1 \<le> m" "m \<le> 12" "1 \<le> d" "d \<le> days_in_month y m"
  shows "0 < days_before_month y m + d"
    and "days_before_month y m + d \<le> 365 + (if is_leap y then 1 else 0)"
proof -
  have "days_before_month y 1 \<le> days_before_month y m"
    using assms by (intro days_before_month_mono) simp_all
  then show "0 < days_before_month y m + d"
    using assms by (simp add: days_before_month_1)
  show "days_before_month y m + d \<le> 365 + (if is_leap y then 1 else 0)"
  proof (cases "m = 12")
    case True
    then show ?thesis
      using assms days_before_month_12 [of y] by (simp add: days_in_month_12)
  next
    case False
    then have "days_before_month y (m + 1) = days_before_month y m + days_in_month y m"
      using assms by (intro days_before_month_Suc) simp_all
    moreover have "days_before_month y (m + 1) \<le> days_before_month y 12"
      using assms False by (intro days_before_month_mono) simp_all
    ultimately show ?thesis
      using assms days_before_month_12 [of y] by simp
  qed
qed

lemma toordinal_year_bounds:
  assumes "valid_datetime t"
  shows "days_before_year (year t) < toordinal t"
    and "toordinal t \<le> days_before_year (year t + 1)"
  using assms day_of_year_bounds [of "month t" "day t" "year t"]
  by (simp_all add: valid_datetime_def toordinal_def ymd_to_ord_def days_before_year_Suc)

lemma toordinal_year_le:
  assumes a: "valid_datetime a" and b: "valid_datetime b" and o: "toordinal a \<le> toordinal b"
  shows "year a \<le> year b"
proof (rule ccontr)
  assume "\<not> year a \<le> year b"
  then have "year b + 1 \<le> year a" by simp
  then have "days_before_year (year b + 1) \<le> days_before_year (year a)"
    by (rule days_before_year_mono)
  with toordinal_year_bounds [OF a] toordinal_year_bounds [OF b] o show False
    by simp
qed

lemma toordinal_month_le:
  assumes a: "valid_datetime a" and b: "valid_datetime b" and y: "year a = year b"
    and o: "toordinal a \<le> toordinal b"
  shows "month a \<le> month b"
proof (rule ccontr)
  assume n: "\<not> month a \<le> month b"
  from a b have ma: "1 \<le> month a" "month a \<le> 12" and mb: "1 \<le> month b" "month b \<le> 12"
    and db: "day b \<le> days_in_month (year b) (month b)" and da: "1 \<le> day a"
    by (simp_all add: valid_datetime_def)
  from n mb ma have "days_before_month (year b) (month b + 1) =
      days_before_month (year b) (month b) + days_in_month (year b) (month b)"
    by (intro days_before_month_Suc) simp_all
  moreover from n mb ma have "days_before_month (year b) (month b + 1)
      \<le> days_before_month (year b) (month a)"
    by (intro days_before_month_mono) simp_all
  ultimately show False
    using o y da db by (simp add: toordinal_def ymd_to_ord_def)
qed

lemma toordinal_inj:
  assumes a: "valid_datetime a" and b: "valid_datetime b" and o: "toordinal a = toordinal b"
  shows "a = b"
proof -
  have y: "year a = year b"
    using toordinal_year_le [OF a b] toordinal_year_le [OF b a] o by simp
  have m: "month a = month b"
    using toordinal_month_le [OF a b y] toordinal_month_le [OF b a] y o by simp
  have "day a = day b"
    using o y m by (simp add: toordinal_def ymd_to_ord_def)
  with y m show ?thesis by simp
qed

text \<open>
  C5 (as amended). For every valid reference date \<open>T\<close> other than the first and the last
  date a datetime can hold, \<open>get_dates\<close> returns nine strings: day, month and year of
  yesterday, of today and of tomorrow, in that order. Yesterday is the one valid date whose
  day count is one less than that of \<open>T\<close>, tomorrow the one whose day count is one more, so
  the three dates are distinct and month and year roll over as the calendar does; for
  \<open>T\<close> a 1 January, yesterday is 31 December of the year before. Each day and month is
  rendered in two digits, zero-padded, and each year in decimal digits, which are four for
  every year from 1000 on.
\<close>

theorem get_dates_window:
  assumes "valid_datetime T" and "T \<noteq> datetime_min" and "T \<noteq> datetime_max"
  shows "\<exists>Y M.
    get_dates T =
      Inr [strftime_d Y, strftime_m Y, strftime_Y Y,
           strftime_d T, strftime_m T, strftime_Y T,
           strftime_d M, strftime_m M, strftime_Y M] \<and>
    valid_datetime Y \<and> valid_datetime M \<and>
    toordinal Y = toordinal T - 1 \<and> toordinal M = toordinal T + 1 \<and>
    (\<forall>D. valid_datetime D \<longrightarrow> (toordinal D = toordinal T - 1) = (D = Y)) \<and>
    (\<forall>D. valid_datetime D \<longrightarrow> (toordinal D = toordinal T + 1) = (D = M)) \<and>
    distinct [Y, T, M] \<and>
    rendered Y \<and> rendered T \<and> rendered M \<and>
    list_all (\<lambda>t. 1000 \<le> year t \<longrightarrow> padded 4 (year t) (strftime_Y t)) [Y, T, M] \<and>
    (month T = 1 \<and> day T = 1 \<longrightarrow> Y = \<lparr>year = year T - 1, month = 12, day = 31\<rparr>)"
proof -
  from yesterday_exists [OF assms(1,2)] obtain Y where
    Y: "add_datetime_timedelta T 1 (- 1) = Inr Y" "valid_datetime Y"
      "toordinal Y = toordinal T - 1"
      "month T = 1 \<and> day T = 1 \<longrightarrow> Y = \<lparr>year = year T - 1, month = 12, day = 31\<rparr>"
    by blast
  from tomorrow_exists [OF assms(1,3)] obtain M where
    M: "add_datetime_timedelta T 1 1 = Inr M" "valid_datetime M"
      "toordinal M = toordinal T + 1"
    by blast
  have g: "get_dates T =
      Inr [strftime_d Y, strftime_m Y, strftime_Y Y,
           strftime_d T, strftime_m T, strftime_Y T,
           strftime_d M, strftime_m M, strftime_Y M]"
    by (simp add: get_dates_def Y(1) M(1))
  have uY: "\<forall>D. valid_datetime D \<longrightarrow> (toordinal D = toordinal T - 1) = (D = Y)"
    using toordinal_inj [OF _ Y(2)] Y(3) by auto
  have uM: "\<forall>D. valid_datetime D \<longrightarrow> (toordinal D = toordinal T + 1) = (D = M)"
    using toordinal_inj [OF _ M(2)] M(3) by auto
  have dist: "distinct [Y, T, M]"
    using Y(3) M(3) by auto
  have r: "rendered Y" "rendered T" "rendered M"
    using Y(2) assms(1) M(2) by (simp_all add: valid_rendered)
  have f: "list_all (\<lambda>t. 1000 \<le> year t \<longrightarrow> padded 4 (year t) (strftime_Y t)) [Y, T, M]"
    using Y(2) assms(1) M(2) by (simp add: valid_four_digits)
  show ?thesis
    using g Y(2) M(2) Y(3) M(3) uY uM dist r f Y(4)
    by (intro exI [of _ Y] exI [of _ M] conjI) assumption+
qed

text \<open>The window of 1 January 2024 reaches back into 2023.\<close>

theorem get_dates_window_witness:
  "valid_datetime \<lparr>year = 2024, month = 1, day = 1\<rparr> \<and>
   \<lparr>year = 2024, month = 1, day = 1\<rparr> \<noteq> datetime_min \<and>
   \<lparr>year = 2024, month = 1, day = 1\<rparr> \<noteq> datetime_max \<and>
   get_dates \<lparr>year = 2024, month = 1, day = 1\<rparr> =
     Inr [''31'', ''12'', ''2023'', ''01'', ''01'', ''2024'', ''02'', ''01'', ''2024'']"
proof -
  let ?T = "\<lparr>year = 2024, month = 1, day = 1\<rparr>"
  have h1: "valid_datetime ?T"
    by (simp add: valid_datetime_def MINYEAR_def MAXYEAR_def days_in_month_def DAYS_IN_MONTH_def)
  have h2: "?T \<noteq> datetime_min"
    by (simp add: datetime_min_def MINYEAR_def)
  have h3: "?T \<noteq> datetime_max"
    by (simp add: datetime_max_def)
  from get_dates_window [OF h1 h2 h3] obtain Y M where
    g: "get_dates ?T =
      Inr [strftime_d Y, strftime_m Y, strftime_Y Y,
           strftime_d ?T, strftime_m ?T, strftime_Y ?T,
           strftime_d M, strftime_m M, strftime_Y M]"
    and Y: "Y = \<lparr>year = 2023, month = 12, day = 31\<rparr>"
    and M: "valid_datetime M" "toordinal M = toordinal ?T + 1"
      "\<forall>D. valid_datetime D \<longrightarrow> (toordinal D = toordinal ?T + 1) = (D = M)"
    by auto
  have "valid_datetime \<lparr>year = 2024, month = 1, day = 2\<rparr>"
    by (simp add: valid_datetime_def MINYEAR_def MAXYEAR_def days_in_month_def DAYS_IN_MONTH_def)
  moreover have "toordinal \<lparr>year = 2024, month = 1, day = 2\<rparr> = toordinal ?T + 1"
    by (simp add: toordinal_def ymd_to_ord_def)
  ultimately have M': "M = \<lparr>year = 2024, month = 1, day = 2\<rparr>"
    using M(3) by blast
  have s: "strftime_d \<lparr>year = 2023, month = 12, day = 31\<rparr> = ''31''"
    "strftime_m \<lparr>year = 2023, month = 12, day = 31\<rparr> = ''12''"
    "strftime_Y \<lparr>year = 2023, month = 12, day = 31\<rparr> = ''2023''"
    "strftime_d \<lparr>year = 2024, month = 1, day = 1\<rparr> = ''01''"
    "strftime_m \<lparr>year = 2024, month = 1, day = 1\<rparr> = ''01''"
    "strftime_Y \<lparr>year = 2024, month = 1, day = 1\<rparr> = ''2024''"
    "strftime_d \<lparr>year = 2024, month = 1, day = 2\<rparr> = ''02''"
    "strftime_m \<lparr>year = 2024, month = 1, day = 2\<rparr> = ''01''"
    "strftime_Y \<lparr>year = 2024, month = 1, day = 2\<rparr> = ''2024''"
    by code_simp+
  show ?thesis
    using h1 h2 h3 g by (simp add: Y M' s)
qed

text \<open>
  C5 as stated fails at both ends of the range of a datetime: on 31 December 9999 there
  is no tomorrow and on 1 January of year 1 no yesterday, and \<open>get_dates\<close> raises
  \<^verbatim>\<open>OverflowError\<close> instead of returning a window. It also fails for the years below 1000
  where the year is not padded: the window of 15 June 999 has the year strings \<^verbatim>\<open>999\<close>.
\<close>

theorem get_dates_overflow:
  "valid_datetime datetime_max \<and> get_dates datetime_max = Inl OverflowError \<and>
   valid_datetime datetime_min \<and> get_dates datetime_min = Inl OverflowError \<and>
   valid_datetime \<lparr>year = 999, month = 6, day = 15\<rparr> \<and>
   get_dates \<lparr>year = 999, month = 6, day = 15\<rparr> =
     Inr [''14'', ''06'', ''999'', ''15'', ''06'', ''999'', ''16'', ''06'', ''999'']"
  by (simp add: valid_datetime_def datetime_max_def datetime_min_def MINYEAR_def MAXYEAR_def
      days_in_month_def DAYS_IN_MONTH_def get_dates_def add_datetime_timedelta_def
      normalize_y_m_d_def strftime_d_def strftime_m_def strftime_Y_def zfill_def
      str_nat.simps digit_char_def)

section \<open>Properties of the aggregator\<close>

lemma getitem_error: "getitem v k = Inl e \<Longrightarrow> mapping_error e"
  by (cases v) (auto split: option.splits)

lemma call_strip_error: "call_strip v = Inl e \<Longrightarrow> mapping_error e"
  by (cases v) auto

lemma FlightDetails_init_error:
  "FlightDetails_init dst tm co fn cm = Inl e \<Longrightarrow> mapping_error e"
  by (auto simp: FlightDetails_init_def Let_def split: option.splits)

lemma make_flight_error: "make_flight item = Inl e \<Longrightarrow> mapping_error e"
  unfolding make_flight_def
  by (auto split: sum.splits dest: getitem_error call_strip_error FlightDetails_init_error)

lemma flight_details_error: "flight_details items = Inl e \<Longrightarrow> mapping_error e"
  by (induction items) (auto split: sum.splits dest: make_flight_error)

lemma update_absent: "map_of al k = None \<Longrightarrow> AList.update k v al = al @ [(k, v)]"
  by (induction al) (auto split: if_splits)

lemma extend_nothing: "extend_flights mv [] df = df"
  by (simp add: extend_flights_def)

lemma process_movement_present:
  assumes "map_of fb cd = Some df"
  shows "process_movement w cd dy mo yr mv \<lparr>flights_by_date = fb, api_errors = es\<rparr> =
    \<lparr>flights_by_date =
       AList.update cd (extend_flights mv (fetched w (url mv ''djerba'' dy mo yr)) df) fb,
     api_errors = es @ error_entries cd mv (failure w (url mv ''djerba'' dy mo yr))\<rparr>"
proof -
  let ?u = "url mv ''djerba'' dy mo yr"
  have triv: "AList.update cd df fb = fb"
    using assms by (rule AList.update_triv)
  show ?thesis
  proof (cases "client_get w ?u")
    case (Inl e)
    then have "try_body w cd ?u mv \<lparr>flights_by_date = fb, api_errors = es\<rparr> = Inl e"
      by (simp add: try_body_def)
    then show ?thesis
      using Inl
      by (cases e)
        (simp_all add: process_movement_def fetched_def failure_def error_entries_def
          append_error_def extend_nothing triv)
  next
    case (Inr data)
    show ?thesis
    proof (cases "\<exists>items. data = JList items")
      case False
      then have "try_body w cd ?u mv \<lparr>flights_by_date = fb, api_errors = es\<rparr> =
          Inr (append_error cd mv ''Unexpected response format''
            \<lparr>flights_by_date = fb, api_errors = es\<rparr>)"
        using Inr by (cases data) (simp_all add: try_body_def)
      then show ?thesis
        using Inr False
        by (cases data)
          (simp_all add: process_movement_def fetched_def failure_def error_entries_def
            append_error_def extend_nothing triv)
    next
      case True
      then obtain items where items: "data = JList items" by blast
      show ?thesis
      proof (cases "flight_details items")
        case (Inl e)
        then have m: "mapping_error e" by (rule flight_details_error)
        have "try_body w cd ?u mv \<lparr>flights_by_date = fb, api_errors = es\<rparr> = Inl e"
          using Inr items Inl by (simp add: try_body_def)
        then show ?thesis
          using Inr items Inl m
          by (cases e)
            (simp_all add: process_movement_def fetched_def failure_def error_entries_def
              append_error_def extend_nothing triv)
      next
        case (Inr fds)
        then show ?thesis
          using \<open>client_get w ?u = Inr data\<close> items assms
          by (simp add: process_movement_def try_body_def fetched_def failure_def
              error_entries_def)
      qed
    qed
  qed
qed

lemma update_last: "map_of al k = None \<Longrightarrow> AList.update k v (al @ [(k, v')]) = al @ [(k, v)]"
  by (induction al) (auto split: if_splits)

lemma map_of_last: "map_of al k = None \<Longrightarrow> map_of (al @ [(k, v)]) k = Some v"
  by (induction al) (auto split: if_splits)

lemma process_date_absent:
  assumes "map_of fb (dy @ ''-'' @ mo @ ''-'' @ yr) = None"
  shows "process_date w dy mo yr \<lparr>flights_by_date = fb, api_errors = es\<rparr> =
    \<lparr>flights_by_date = fb @
       [(dy @ ''-'' @ mo @ ''-'' @ yr,
         \<lparr>departures = fetched w (url Departures ''djerba'' dy mo yr),
          arrivals = fetched w (url Arrivals ''djerba'' dy mo yr)\<rparr>)],
     api_errors = es @
       error_entries (dy @ ''-'' @ mo @ ''-'' @ yr) Departures
         (failure w (url Departures ''djerba'' dy mo yr)) @
       error_entries (dy @ ''-'' @ mo @ ''-'' @ yr) Arrivals
         (failure w (url Arrivals ''djerba'' dy mo yr))\<rparr>"
proof -
  let ?k = "dy @ ''-'' @ mo @ ''-'' @ yr"
  let ?e = "\<lparr>departures = [], arrivals = []\<rparr>"
  let ?d = "\<lparr>departures = fetched w (url Departures ''djerba'' dy mo yr), arrivals = []\<rparr>"
  have s1: "process_date w dy mo yr \<lparr>flights_by_date = fb, api_errors = es\<rparr> =
      process_movement w ?k dy mo yr Arrivals
        (process_movement w ?k dy mo yr Departures
          \<lparr>flights_by_date = fb @ [(?k, ?e)], api_errors = es\<rparr>)"
    using assms by (simp add: process_date_def Let_def update_absent)
  have p1: "map_of (fb @ [(?k, ?e)]) ?k = Some ?e"
    using assms by (rule map_of_last)
  have s2: "process_movement w ?k dy mo yr Departures
      \<lparr>flights_by_date = fb @ [(?k, ?e)], api_errors = es\<rparr> =
      \<lparr>flights_by_date = fb @ [(?k, ?d)],
       api_errors = es @ error_entries ?k Departures
         (failure w (url Departures ''djerba'' dy mo yr))\<rparr>"
    using assms
    by (simp only: process_movement_present [OF p1])
      (simp add: extend_flights_def update_last)
  have p2: "map_of (fb @ [(?k, ?d)]) ?k = Some ?d"
    using assms by (rule map_of_last)
  show ?thesis
    using assms
    by (simp only: s1 s2 process_movement_present [OF p2])
      (simp add: extend_flights_def update_last)
qed

lemma range3_nine: "range3 9 = [0, 3, 6]"
  by code_simp

lemma date_loop_nine:
  assumes d: "distinct [d1 @ ''-'' @ m1 @ ''-'' @ y1, d2 @ ''-'' @ m2 @ ''-'' @ y2,
      d3 @ ''-'' @ m3 @ ''-'' @ y3]"
  shows "date_loop w [d1, m1, y1, d2, m2, y2, d3, m3, y3] [0, 3, 6]
      \<lparr>flights_by_date = [], api_errors = []\<rparr> =
    Inr \<lparr>flights_by_date =
       [(d1 @ ''-'' @ m1 @ ''-'' @ y1,
         \<lparr>departures = fetched w (url Departures ''djerba'' d1 m1 y1),
          arrivals = fetched w (url Arrivals ''djerba'' d1 m1 y1)\<rparr>),
        (d2 @ ''-'' @ m2 @ ''-'' @ y2,
         \<lparr>departures = fetched w (url Departures ''djerba'' d2 m2 y2),
          arrivals = fetched w (url Arrivals ''djerba'' d2 m2 y2)\<rparr>),
        (d3 @ ''-'' @ m3 @ ''-'' @ y3,
         \<lparr>departures = fetched w (url Departures ''djerba'' d3 m3 y3),
          arrivals = fetched w (url Arrivals ''djerba'' d3 m3 y3)\<rparr>)],
     api_errors =
       error_entries (d1 @ ''-'' @ m1 @ ''-'' @ y1) Departures
         (failure w (url Departures ''djerba'' d1 m1 y1)) @
       error_entries (d1 @ ''-'' @ m1 @ ''-'' @ y1) Arrivals
         (failure w (url Arrivals ''djerba'' d1 m1 y1)) @
       error_entries (d2 @ ''-'' @ m2 @ ''-'' @ y2) Departures
         (failure w (url Departures ''djerba'' d2 m2 y2)) @
       error_entries (d2 @ ''-'' @ m2 @ ''-'' @ y2) Arrivals
         (failure w (url Arrivals ''djerba'' d2 m2 y2)) @
       error_entries (d3 @ ''-'' @ m3 @ ''-'' @ y3) Departures
         (failure w (url Departures ''djerba'' d3 m3 y3)) @
       error_entries (d3 @ ''-'' @ m3 @ ''-'' @ y3) Arrivals
         (failure w (url Arrivals ''djerba'' d3 m3 y3))\<rparr>"
proof -
  let ?k1 = "d1 @ ''-'' @ m1 @ ''-'' @ y1"
  let ?k2 = "d2 @ ''-'' @ m2 @ ''-'' @ y2"
  let ?k3 = "d3 @ ''-'' @ m3 @ ''-'' @ y3"
  let ?ds = "[d1, m1, y1, d2, m2, y2, d3, m3, y3]"
  from d have ne: "?k1 \<noteq> ?k2" "?k1 \<noteq> ?k3" "?k2 \<noteq> ?k3"
    by simp_all
  have n: "?ds ! 0 = d1" "?ds ! 1 = m1" "?ds ! 2 = y1" "?ds ! 3 = d2" "?ds ! 4 = m2"
    "?ds ! 5 = y2" "?ds ! 6 = d3" "?ds ! 7 = m3" "?ds ! 8 = y3" "length ?ds = 9"
    by simp_all
  have a1: "map_of [] ?k1 = (None :: DateFlights option)"
    by simp
  have a2: "map_of [(?k1, v1)] ?k2 = None" for v1 :: DateFlights
    using ne by simp
  have a3: "map_of [(?k1, v1), (?k2, v2)] ?k3 = None" for v1 v2 :: DateFlights
    using ne by simp
  have e: "date_loop w ?ds [0, 3, 6] \<lparr>flights_by_date = [], api_errors = []\<rparr> =
      Inr (process_date w d3 m3 y3 (process_date w d2 m2 y2 (process_date w d1 m1 y1
        \<lparr>flights_by_date = [], api_errors = []\<rparr>)))"
    by (simp add: n)
  note p1 = process_date_absent [OF a1, of w "[]", simplified]
  note p2 = process_date_absent [OF a2, simplified]
  note p3 = process_date_absent [OF a3, simplified]
  show ?thesis
    by (simp only: e p1 p2 p3) simp
qed

lemma window_exists:
  assumes "valid_datetime T" and "T \<noteq> datetime_min" and "T \<noteq> datetime_max"
  shows "\<exists>Y M. window Y T M"
  using yesterday_exists [OF assms(1,2)] tomorrow_exists [OF assms(1,3)] assms(1)
  by (auto simp: window_def)

lemma window_inside:
  assumes "window Y T M"
  shows "T \<noteq> datetime_min" and "T \<noteq> datetime_max"
proof -
  have "add_datetime_timedelta datetime_min 1 (- 1) = Inl OverflowError"
    by (simp add: datetime_min_def add_datetime_timedelta_def normalize_y_m_d_def MINYEAR_def
        MAXYEAR_def days_in_month_def DAYS_IN_MONTH_def)
  then show "T \<noteq> datetime_min"
    using assms by (auto simp: window_def)
  have "add_datetime_timedelta datetime_max 1 1 = Inl OverflowError"
    by (simp add: datetime_max_def add_datetime_timedelta_def normalize_y_m_d_def MINYEAR_def
        MAXYEAR_def days_in_month_def DAYS_IN_MONTH_def)
  then show "T \<noteq> datetime_max"
    using assms by (auto simp: window_def)
qed

lemma window_props:
  assumes "window Y T M"
  shows "valid_datetime Y" and "valid_datetime T" and "valid_datetime M"
    and "toordinal Y = toordinal T - 1" and "toordinal M = toordinal T + 1"
proof -
  from assms have v: "valid_datetime T"
    and y: "add_datetime_timedelta T 1 (- 1) = Inr Y"
    and m: "add_datetime_timedelta T 1 1 = Inr M"
    by (simp_all add: window_def)
  from yesterday_exists [OF v window_inside(1) [OF assms]] y
  show "valid_datetime Y" "toordinal Y = toordinal T - 1" by auto
  from tomorrow_exists [OF v window_inside(2) [OF assms]] m
  show "valid_datetime M" "toordinal M = toordinal T + 1" by auto
  show "valid_datetime T" by (rule v)
qed

lemma window_get_dates:
  assumes "window Y T M"
  shows "get_dates T =
      Inr [strftime_d Y, strftime_m Y, strftime_Y Y,
           strftime_d T, strftime_m T, strftime_Y T,
           strftime_d M, strftime_m M, strftime_Y M]"
  using assms by (simp add: window_def get_dates_def)

lemma window_keys:
  assumes "window Y T M"
  shows "distinct [date_key Y, date_key T, date_key M]"
proof -
  note p = window_props [OF assms]
  have r: "rendered Y" "rendered T" "rendered M"
    using p(1,2,3) by (simp_all add: valid_rendered)
  have "Y \<noteq> T" "T \<noteq> M" "Y \<noteq> M"
    using p(4,5) by auto
  then show "distinct [date_key Y, date_key T, date_key M]"
    using rendered_key_inj r by auto
qed

lemma window_key_format:
  assumes win: "window Y T M" and y: "1000 \<le> year Y"
  shows "dd_mm_yyyy (date_key Y)" and "dd_mm_yyyy (date_key T)" and "dd_mm_yyyy (date_key M)"
proof -
  note p = window_props [OF win]
  have "year Y \<le> year T"
    using toordinal_year_le [OF p(1) p(2)] p(4) by simp
  moreover have "year T \<le> year M"
    using toordinal_year_le [OF p(2) p(3)] p(5) by simp
  ultimately have ys: "1000 \<le> year T" "1000 \<le> year M"
    using y by simp_all
  show "dd_mm_yyyy (date_key Y)"
    using p(1) y by (intro rendered_key_format valid_rendered valid_four_digits)
  show "dd_mm_yyyy (date_key T)"
    using p(2) ys(1) by (intro rendered_key_format valid_rendered valid_four_digits)
  show "dd_mm_yyyy (date_key M)"
    using p(3) ys(2) by (intro rendered_key_format valid_rendered valid_four_digits)
qed

lemma final_state_window:
  assumes "window Y (clock_now w) M"
  shows "final_state w =
    Inr \<lparr>flights_by_date =
       [(date_key Y,
         \<lparr>departures = produced w Departures Y, arrivals = produced w Arrivals Y\<rparr>),
        (date_key (clock_now w),
         \<lparr>departures = produced w Departures (clock_now w),
          arrivals = produced w Arrivals (clock_now w)\<rparr>),
        (date_key M,
         \<lparr>departures = produced w Departures M, arrivals = produced w Arrivals M\<rparr>)],
     api_errors =
       recorded w Departures Y @ recorded w Arrivals Y @
       recorded w Departures (clock_now w) @ recorded w Arrivals (clock_now w) @
       recorded w Departures M @ recorded w Arrivals M\<rparr>"
proof -
  have d: "distinct [strftime_d Y @ ''-'' @ strftime_m Y @ ''-'' @ strftime_Y Y,
      strftime_d (clock_now w) @ ''-'' @ strftime_m (clock_now w) @ ''-'' @
        strftime_Y (clock_now w),
      strftime_d M @ ''-'' @ strftime_m M @ ''-'' @ strftime_Y M]"
    using window_keys [OF assms] by (simp only: date_key_def)
  have l: "length [strftime_d Y, strftime_m Y, strftime_Y Y,
           strftime_d (clock_now w), strftime_m (clock_now w), strftime_Y (clock_now w),
           strftime_d M, strftime_m M, strftime_Y M] = 9"
    by simp
  show ?thesis
    unfolding final_state_def window_get_dates [OF assms] sum.case l range3_nine
      date_loop_nine [OF d]
    by (simp only: date_key_def request_url_def produced_def recorded_def)
qed

lemma movement_label_inj: "(movement_label a = movement_label b) = (a = b)"
  by (cases a; cases b) (simp_all add: movement_label_def)

lemma errors_for_entries:
  "errors_for k mv (error_entries k' mv' f) =
     (if k = k' \<and> mv = mv' then error_entries k' mv' f else [])"
  by (cases f) (auto simp: errors_for_def error_entries_def movement_label_inj)

lemma errors_for_append: "errors_for k mv (xs @ ys) = errors_for k mv xs @ errors_for k mv ys"
  by (simp add: errors_for_def)

lemma errors_for_recorded:
  "errors_for k mv (recorded w mv' t) =
     (if k = date_key t \<and> mv = mv' then recorded w mv' t else [])"
  by (simp add: recorded_def errors_for_entries)

lemma window_response:
  assumes "window Y (clock_now w) M"
  shows "get_djerba_flights w =
    Inr [(date_key Y,
          \<lparr>departures = produced w Departures Y, arrivals = produced w Arrivals Y\<rparr>),
         (date_key (clock_now w),
          \<lparr>departures = produced w Departures (clock_now w),
           arrivals = produced w Arrivals (clock_now w)\<rparr>),
         (date_key M,
          \<lparr>departures = produced w Departures M, arrivals = produced w Arrivals M\<rparr>)]"
  by (simp add: get_djerba_flights_def respond_def final_state_window [OF assms])

lemma window_pairs:
  assumes win: "window Y (clock_now w) M" and t: "t \<in> set [Y, clock_now w, M]"
  shows "\<exists>st. final_state w = Inr st \<and> get_djerba_flights w = Inr (flights_by_date st) \<and>
    map fst (flights_by_date st) = [date_key Y, date_key (clock_now w), date_key M] \<and>
    flights_of (flights_by_date st) (date_key t) mv = produced w mv t \<and>
    errors_for (date_key t) mv (api_errors st) = recorded w mv t"
proof -
  note fs = final_state_window [OF win]
  from window_keys [OF win] have ne: "date_key Y \<noteq> date_key (clock_now w)"
    "date_key Y \<noteq> date_key M" "date_key (clock_now w) \<noteq> date_key M"
    by simp_all
  have "flights_of [(date_key Y,
          \<lparr>departures = produced w Departures Y, arrivals = produced w Arrivals Y\<rparr>),
         (date_key (clock_now w),
          \<lparr>departures = produced w Departures (clock_now w),
           arrivals = produced w Arrivals (clock_now w)\<rparr>),
         (date_key M,
          \<lparr>departures = produced w Departures M, arrivals = produced w Arrivals M\<rparr>)]
        (date_key t) mv = produced w mv t"
    using t ne by (cases mv) (auto simp: flights_of_def)
  moreover have "errors_for (date_key t) mv
      (recorded w Departures Y @ recorded w Arrivals Y @
       recorded w Departures (clock_now w) @ recorded w Arrivals (clock_now w) @
       recorded w Departures M @ recorded w Arrivals M) = recorded w mv t"
    using t ne by (cases mv) (auto simp: errors_for_append errors_for_recorded)
  ultimately show ?thesis
    by (simp add: fs get_djerba_flights_def respond_def)
qed

section \<open>The sample runs and what the handler answers\<close>

lemma strftime_sample:
  "strftime_d sample_yesterday = ''14''" "strftime_m sample_yesterday = ''03''"
  "strftime_Y sample_yesterday = ''2024''"
  "strftime_d sample_today = ''15''" "strftime_m sample_today = ''03''"
  "strftime_Y sample_today = ''2024''"
  "strftime_d sample_tomorrow = ''16''" "strftime_m sample_tomorrow = ''03''"
  "strftime_Y sample_tomorrow = ''2024''"
  by (simp_all add: strftime_d_def strftime_m_def strftime_Y_def sample_yesterday_def
      sample_today_def sample_tomorrow_def zfill_def str_nat.simps digit_char_def)

lemma sample_get_values:
  "sample_get (request_url Departures sample_yesterday) =
     Inl (HTTPStatusError 503 ''Service Unavailable'')"
  "sample_get (request_url Arrivals sample_yesterday) = Inl (RequestError ''timed out'')"
  "sample_get (request_url Departures sample_today) = Inr (JList [nouvelair_record])"
  "sample_get (request_url Arrivals sample_today) =
     Inr (JDict [(''status'', JString ''maintenance'')])"
  "sample_get (request_url Departures sample_tomorrow) =
     Inr (JList [tunisair_record, broken_record])"
  "sample_get (request_url Arrivals sample_tomorrow) = Inr (JList [tunisair_record])"
  by (simp_all add: sample_get_def request_url_def url_def strftime_sample)

lemma strip_tunisair: "strip '' TunisAir '' = ''TunisAir''"
  by (simp add: strip_def isspace_def)

lemma make_flight_samples:
  "make_flight nouvelair_record = Inr nouvelair_flight"
  "make_flight tunisair_record = Inr tunisair_flight"
  "make_flight broken_record = Inl (KeyError ''numVol'')"
  by (simp_all add: make_flight_def nouvelair_record_def tunisair_record_def broken_record_def
      nouvelair_flight_def tunisair_flight_def FlightDetails_init_def strip_def isspace_def)

lemma sample_clock: "clock_now sample_world = sample_today"
  and sample_client: "client_get sample_world = sample_get"
  and sample_str: "exc_str sample_world = sample_exc_str"
  by (simp_all add: sample_world_def)

lemma sample_window: "window sample_yesterday sample_today sample_tomorrow"
  by (simp add: window_def sample_yesterday_def sample_today_def sample_tomorrow_def
      valid_datetime_def MINYEAR_def MAXYEAR_def days_in_month_def DAYS_IN_MONTH_def
      add_datetime_timedelta_def normalize_y_m_d_def)

lemma sample_keys:
  "date_key sample_yesterday = ''14-03-2024''"
  "date_key sample_today = ''15-03-2024''"
  "date_key sample_tomorrow = ''16-03-2024''"
  by (simp_all add: date_key_def strftime_sample)

lemma sample_produced:
  "produced sample_world Departures sample_yesterday = []"
  "produced sample_world Arrivals sample_yesterday = []"
  "produced sample_world Departures sample_today = [nouvelair_flight]"
  "produced sample_world Arrivals sample_today = []"
  "produced sample_world Departures sample_tomorrow = []"
  "produced sample_world Arrivals sample_tomorrow = [tunisair_flight]"
  by (simp_all add: produced_def fetched_def sample_client sample_get_values
      make_flight_samples)

lemma sample_recorded:
  "recorded sample_world Departures sample_yesterday =
     [\<lparr>date = ''14-03-2024'', movement = ''departures'',
       error = ''API error 503: Service Unavailable''\<rparr>]"
  "recorded sample_world Arrivals sample_yesterday =
     [\<lparr>date = ''14-03-2024'', movement = ''arrivals'', error = ''Network error: timed out''\<rparr>]"
  "recorded sample_world Departures sample_today = []"
  "recorded sample_world Arrivals sample_today =
     [\<lparr>date = ''15-03-2024'', movement = ''arrivals'',
       error = ''Unexpected response format''\<rparr>]"
  "recorded sample_world Departures sample_tomorrow =
     [\<lparr>date = ''16-03-2024'', movement = ''departures'',
       error = ''Unexpected error: '' @ sample_exc_str (KeyError ''numVol'')\<rparr>]"
  "recorded sample_world Arrivals sample_tomorrow = []"
  by (simp_all add: recorded_def failure_def error_entries_def sample_client sample_str
      sample_get_values make_flight_samples sample_keys movement_label_def str_nat.simps
      digit_char_def sample_exc_str_def)

lemma sample_final: "final_state sample_world = Inr sample_state"
  using final_state_window [of sample_yesterday sample_world sample_tomorrow] sample_window
  by (simp add: sample_clock sample_keys sample_produced sample_recorded sample_state_def)

lemma down_clock: "clock_now world_down = sample_today"
  and down_client: "client_get world_down u = Inl (RequestError ''All connection attempts failed'')"
  and down_str: "exc_str world_down = sample_exc_str"
  by (simp_all add: world_down_def)

lemma down_final: "final_state world_down = Inr down_state"
  using final_state_window [of sample_yesterday world_down sample_tomorrow] sample_window
  by (simp add: down_clock sample_keys produced_def fetched_def recorded_def failure_def
      error_entries_def down_client down_str movement_label_def sample_exc_str_def
      down_state_def down_error_def)

lemma failure_fetched: "failure w u \<noteq> None \<Longrightarrow> fetched w u = []"
  by (auto simp: failure_def fetched_def split: sum.splits json.splits)

text \<open>
  C1. With every one of the six requests failing in the network, the handler does not
  raise the 500 exception: it returns the dictionary of the three dates, each with empty
  lists, and the six errors it has recorded are not in the response.
\<close>

theorem all_fetches_fail_returns_200:
  "get_djerba_flights world_down =
     Inr [(''14-03-2024'', \<lparr>departures = [], arrivals = []\<rparr>),
          (''15-03-2024'', \<lparr>departures = [], arrivals = []\<rparr>),
          (''16-03-2024'', \<lparr>departures = [], arrivals = []\<rparr>)] \<and>
   final_state world_down = Inr down_state \<and> length (api_errors down_state) = 6"
  by (simp add: get_djerba_flights_def respond_def down_final) (simp add: down_state_def)

text \<open>
  C2 (as amended). When the clock shows a date whose window exists, then whatever the six
  requests give, the handler returns a dictionary with exactly three keys, the keys of
  yesterday, today and tomorrow in that order, distinct, each made of the day and the
  month in two digits and the year in decimal digits, with hyphens between; when the
  window lies in the years from 1000 on, where the year has four digits, each key has the
  format \<^verbatim>\<open>DD-MM-YYYY\<close>. A date both of whose fetches fail has its entry all the same, with
  empty departures and arrivals.
\<close>

theorem aggregation_keys:
  assumes win: "window Y (clock_now w) M"
  shows "\<exists>fb. get_djerba_flights w = Inr fb \<and>
    map fst fb = [date_key Y, date_key (clock_now w), date_key M] \<and>
    distinct (map fst fb) \<and> length fb = 3 \<and>
    list_all rendered [Y, clock_now w, M] \<and>
    (1000 \<le> year Y \<longrightarrow> list_all dd_mm_yyyy (map fst fb)) \<and>
    (\<forall>t \<in> set [Y, clock_now w, M].
       fetch_fails w Departures t \<and> fetch_fails w Arrivals t \<longrightarrow>
       map_of fb (date_key t) = Some \<lparr>departures = [], arrivals = []\<rparr>)"
proof -
  let ?fb = "[(date_key Y,
          \<lparr>departures = produced w Departures Y, arrivals = produced w Arrivals Y\<rparr>),
         (date_key (clock_now w),
          \<lparr>departures = produced w Departures (clock_now w),
           arrivals = produced w Arrivals (clock_now w)\<rparr>),
         (date_key M,
          \<lparr>departures = produced w Departures M, arrivals = produced w Arrivals M\<rparr>)]"
  note k = window_keys [OF win]
  have e: "produced w mv t = []" if "fetch_fails w mv t" for mv t
    using that by (simp add: fetch_fails_def produced_def failure_fetched)
  have f1: "\<forall>t \<in> set [Y, clock_now w, M].
       fetch_fails w Departures t \<and> fetch_fails w Arrivals t \<longrightarrow>
       map_of ?fb (date_key t) = Some \<lparr>departures = [], arrivals = []\<rparr>"
    using k by (auto simp: e)
  have f2: "map fst ?fb = [date_key Y, date_key (clock_now w), date_key M]"
    by simp
  have f3: "distinct (map fst ?fb)"
    using k by simp
  have f4: "1000 \<le> year Y \<longrightarrow> list_all dd_mm_yyyy (map fst ?fb)"
    using window_key_format [OF win] by simp
  have f5: "length ?fb = 3"
    by simp
  have f6: "list_all rendered [Y, clock_now w, M]"
    using window_props(1,2,3) [OF win] by (simp add: valid_rendered)
  show ?thesis
    using window_response [OF win] f2 f3 f5 f6 f4 f1
    by (intro exI [of _ ?fb] conjI) assumption+
qed

text \<open>
  In the sample run, in 2024, the three keys have the format, both fetches of yesterday
  fail, and yesterday keeps its empty entry.
\<close>

theorem aggregation_keys_witness:
  "window sample_yesterday (clock_now sample_world) sample_tomorrow \<and>
   1000 \<le> year sample_yesterday \<and>
   fetch_fails sample_world Departures sample_yesterday \<and>
   fetch_fails sample_world Arrivals sample_yesterday \<and>
   (\<exists>fb. get_djerba_flights sample_world = Inr fb \<and>
      map fst fb = [''14-03-2024'', ''15-03-2024'', ''16-03-2024''] \<and>
      list_all dd_mm_yyyy (map fst fb) \<and>
      map_of fb ''14-03-2024'' = Some \<lparr>departures = [], arrivals = []\<rparr>)"
proof -
  note c = sample_clock
  have win: "window sample_yesterday (clock_now sample_world) sample_tomorrow"
    by (simp add: c sample_window)
  have y: "1000 \<le> year sample_yesterday"
    by (simp add: sample_yesterday_def)
  have f: "fetch_fails sample_world Departures sample_yesterday"
    "fetch_fails sample_world Arrivals sample_yesterday"
    by (simp_all add: fetch_fails_def failure_def sample_client sample_get_values)
  from aggregation_keys [OF win] obtain fb where
    g: "get_djerba_flights sample_world = Inr fb"
    and m: "map fst fb = [date_key sample_yesterday, date_key (clock_now sample_world),
      date_key sample_tomorrow]"
    and di: "distinct (map fst fb)" and le: "length fb = 3"
    and re: "list_all rendered [sample_yesterday, clock_now sample_world, sample_tomorrow]"
    and fo: "1000 \<le> year sample_yesterday \<longrightarrow> list_all dd_mm_yyyy (map fst fb)"
    and em: "\<forall>t \<in> set [sample_yesterday, clock_now sample_world, sample_tomorrow].
       fetch_fails sample_world Departures t \<and> fetch_fails sample_world Arrivals t \<longrightarrow>
       map_of fb (date_key t) = Some \<lparr>departures = [], arrivals = []\<rparr>"
    by (elim exE conjE)
  have "sample_yesterday \<in> set [sample_yesterday, clock_now sample_world, sample_tomorrow]"
    by simp
  with em f have e: "map_of fb (date_key sample_yesterday) =
      Some \<lparr>departures = [], arrivals = []\<rparr>"
    by blast
  from fo y have d: "list_all dd_mm_yyyy (map fst fb)"
    by (rule mp)
  have m': "map fst fb = [''14-03-2024'', ''15-03-2024'', ''16-03-2024'']"
    using m by (simp only: c sample_keys)
  have e': "map_of fb ''14-03-2024'' = Some \<lparr>departures = [], arrivals = []\<rparr>"
    using e by (simp only: sample_keys)
  have "\<exists>fb. get_djerba_flights sample_world = Inr fb \<and>
      map fst fb = [''14-03-2024'', ''15-03-2024'', ''16-03-2024''] \<and>
      list_all dd_mm_yyyy (map fst fb) \<and>
      map_of fb ''14-03-2024'' = Some \<lparr>departures = [], arrivals = []\<rparr>"
    using g m' d e' by (intro exI [of _ fb] conjI) assumption+
  with win y f show ?thesis
    by (intro conjI) assumption+
qed

text \<open>
  C2 as stated fails for two kinds of clock. On 15 June 999 the window exists and the
  handler returns three keys, but the year is not padded and none of the keys has the
  format \<^verbatim>\<open>DD-MM-YYYY\<close>. On the last day of the range \<open>get_dates\<close> raises and the handler
  returns no dictionary at all.
\<close>

theorem aggregation_keys_short_year:
  "window \<lparr>year = 999, month = 6, day = 14\<rparr> (clock_now world_999)
     \<lparr>year = 999, month = 6, day = 16\<rparr> \<and>
   get_djerba_flights world_999 =
     Inr [(''14-06-999'', \<lparr>departures = [], arrivals = []\<rparr>),
          (''15-06-999'', \<lparr>departures = [], arrivals = []\<rparr>),
          (''16-06-999'', \<lparr>departures = [], arrivals = []\<rparr>)] \<and>
   \<not> dd_mm_yyyy ''14-06-999'' \<and> \<not> dd_mm_yyyy ''15-06-999'' \<and> \<not> dd_mm_yyyy ''16-06-999'' \<and>
   valid_datetime (clock_now world_last_day) \<and>
   get_djerba_flights world_last_day = Inl OverflowError"
proof -
  have c: "clock_now world_999 = \<lparr>year = 999, month = 6, day = 15\<rparr>"
    and g: "client_get world_999 u = Inl (RequestError ''All connection attempts failed'')"
    for u
    by (simp_all add: world_999_def)
  have win: "window \<lparr>year = 999, month = 6, day = 14\<rparr> (clock_now world_999)
      \<lparr>year = 999, month = 6, day = 16\<rparr>"
    by (simp add: c window_def valid_datetime_def MINYEAR_def MAXYEAR_def days_in_month_def
        DAYS_IN_MONTH_def add_datetime_timedelta_def normalize_y_m_d_def)
  have k: "date_key \<lparr>year = 999, month = 6, day = 14\<rparr> = ''14-06-999''"
    "date_key \<lparr>year = 999, month = 6, day = 15\<rparr> = ''15-06-999''"
    "date_key \<lparr>year = 999, month = 6, day = 16\<rparr> = ''16-06-999''"
    by (simp_all add: date_key_def strftime_d_def strftime_m_def strftime_Y_def zfill_def
        str_nat.simps digit_char_def)
  have r: "get_djerba_flights world_999 =
     Inr [(''14-06-999'', \<lparr>departures = [], arrivals = []\<rparr>),
          (''15-06-999'', \<lparr>departures = [], arrivals = []\<rparr>),
          (''16-06-999'', \<lparr>departures = [], arrivals = []\<rparr>)]"
    using window_response [OF win]
    by (simp add: c k produced_def fetched_def g)
  have n: "\<not> dd_mm_yyyy ''14-06-999''" "\<not> dd_mm_yyyy ''15-06-999''"
    "\<not> dd_mm_yyyy ''16-06-999''"
    by (simp_all add: dd_mm_yyyy_def)
  have v: "valid_datetime (clock_now world_last_day)"
    by (simp add: world_last_day_def datetime_max_def valid_datetime_def MINYEAR_def
        MAXYEAR_def days_in_month_def DAYS_IN_MONTH_def)
  have o: "get_djerba_flights world_last_day = Inl OverflowError"
    by (simp add: get_djerba_flights_def final_state_def world_last_day_def datetime_max_def
        MAXYEAR_def MINYEAR_def get_dates_def add_datetime_timedelta_def normalize_y_m_d_def
        days_in_month_def DAYS_IN_MONTH_def)
  show ?thesis
    using win r n v o by (intro conjI) assumption+
qed

lemma process_movement_keeps:
  assumes "flights_by_date st \<noteq> []"
  shows "flights_by_date (process_movement w cd dy mo yr mv st) \<noteq> []"
proof -
  have u: "AList.update k v al \<noteq> []" for k and v :: DateFlights and al
    by (cases al) auto
  have a: "flights_by_date (append_error cd mv msg st) \<noteq> []" for msg
    using assms by (simp add: append_error_def)
  show ?thesis
  proof (cases "try_body w cd (url mv ''djerba'' dy mo yr) mv st")
    case (Inl e)
    then show ?thesis
      using a by (cases e) (simp_all add: process_movement_def)
  next
    case (Inr st')
    then have "flights_by_date st' \<noteq> []"
      using a u
      by (auto simp: try_body_def split: sum.splits json.splits option.splits)
    then show ?thesis
      using Inr by (simp add: process_movement_def)
  qed
qed

lemma process_date_fills: "flights_by_date (process_date w dy mo yr st) \<noteq> []"
proof -
  have u: "AList.update k v al \<noteq> []" for k and v :: DateFlights and al
    by (cases al) auto
  have n: "al \<noteq> []" if "map_of al k \<noteq> None" for k and al :: "(string \<times> DateFlights) list"
    using that by auto
  show ?thesis
    unfolding process_date_def Let_def
    by (auto intro!: process_movement_keeps simp: u dest: n)
qed

lemma date_loop_keeps:
  "date_loop w dates ixs st = Inr st' \<Longrightarrow> flights_by_date st \<noteq> [] \<or> ixs \<noteq> [] \<Longrightarrow>
   flights_by_date st' \<noteq> []"
proof (induction ixs arbitrary: st)
  case Nil
  then show ?case by simp
next
  case (Cons i ixs)
  from Cons.prems(1) have b: "i + 2 < length dates"
    and r: "date_loop w dates ixs
        (process_date w (dates ! i) (dates ! (i + 1)) (dates ! (i + 2)) st) = Inr st'"
    by (simp_all split: if_splits)
  show ?case
    by (rule Cons.IH [OF r]) (simp add: process_date_fills)
qed

lemma final_state_filled:
  assumes "final_state w = Inr st"
  shows "flights_by_date st \<noteq> []"
proof -
  from assms obtain dates where g: "get_dates (clock_now w) = Inr dates"
    and l: "date_loop w dates (range3 (length dates))
        \<lparr>flights_by_date = [], api_errors = []\<rparr> = Inr st"
    by (auto simp: final_state_def split: sum.splits)
  from g have "length dates = 9"
    by (auto simp: get_dates_def split: sum.splits)
  then have "range3 (length dates) \<noteq> []"
    by (simp add: range3_nine)
  with l show ?thesis
    by (rule date_loop_keeps [OF _ disjI2])
qed

lemma normalize_error: "normalize_y_m_d y m d = Inl e \<Longrightarrow> e = OverflowError"
  by (auto simp: normalize_y_m_d_def Let_def split: if_splits prod.splits)

lemma get_dates_error: "get_dates t = Inl e \<Longrightarrow> e = OverflowError"
  by (auto simp: get_dates_def add_datetime_timedelta_def split: sum.splits
      dest: normalize_error)

lemma date_loop_error: "date_loop w dates ixs st = Inl e \<Longrightarrow> e = IndexError"
  by (induction ixs arbitrary: st) (auto split: if_splits)

lemma final_state_error: "final_state w = Inl e \<Longrightarrow> e = OverflowError \<or> e = IndexError"
  by (auto simp: final_state_def split: sum.splits dest: get_dates_error date_loop_error)

lemma aggregate_failure_unreachable: "get_djerba_flights w \<noteq> Inl (HTTPException code d)"
  by (auto simp: get_djerba_flights_def respond_def split: sum.splits
      dest: final_state_filled final_state_error)

text \<open>
  C3 (as amended). When the loops have ended, lines 129 to 135 decide on the two
  accumulators, whatever they hold: the handler raises the exception with status 500,
  whose detail carries the message \<^verbatim>\<open>Unable to fetch flights\<close> and the recorded errors, if
  and only if the dictionary is empty and the error list is not, and in every other case
  it returns the dictionary. When \<open>get_dates\<close> or the loop raises instead, that exception
  leaves the handler and neither answer is given.
\<close>

theorem aggregate_failure_iff:
  "(respond st =
      Inl (HTTPException 500
        \<lparr>message = ''Unable to fetch flights'', errors = api_errors st\<rparr>)) =
     (flights_by_date st = [] \<and> api_errors st \<noteq> []) \<and>
   isl (respond st) = (flights_by_date st = [] \<and> api_errors st \<noteq> []) \<and>
   (respond st = Inr (flights_by_date st)) =
     (\<not> (flights_by_date st = [] \<and> api_errors st \<noteq> [])) \<and>
   (final_state w = Inr st \<longrightarrow> get_djerba_flights w = respond st) \<and>
   (\<forall>e. final_state w = Inl e \<longrightarrow> get_djerba_flights w = Inl e)"
  by (simp add: respond_def get_djerba_flights_def)

text \<open>
  On an empty dictionary with one recorded error the decision is the 500 with that error;
  on an empty dictionary with no error, and at the end of the run in which every request
  fails (three dates, six errors), it is the dictionary.
\<close>

theorem aggregate_failure_iff_witness:
  "respond \<lparr>flights_by_date = [], api_errors = [down_error ''15-03-2024'' ''departures'']\<rparr> =
     Inl (HTTPException 500
       \<lparr>message = ''Unable to fetch flights'',
        errors = [down_error ''15-03-2024'' ''departures'']\<rparr>) \<and>
   respond \<lparr>flights_by_date = [], api_errors = []\<rparr> = Inr [] \<and>
   final_state world_down = Inr down_state \<and>
   flights_by_date down_state \<noteq> [] \<and> length (api_errors down_state) = 6 \<and>
   get_djerba_flights world_down = Inr (flights_by_date down_state)"
proof -
  let ?s = "\<lparr>flights_by_date = [], api_errors = [down_error ''15-03-2024'' ''departures'']\<rparr>"
  let ?z = "\<lparr>flights_by_date = [], api_errors = []\<rparr> :: state"
  from aggregate_failure_iff [of ?s world_down]
  have a: "respond ?s =
      Inl (HTTPException 500
        \<lparr>message = ''Unable to fetch flights'',
         errors = [down_error ''15-03-2024'' ''departures'']\<rparr>)"
    by simp
  from aggregate_failure_iff [of ?z world_down]
  have b: "respond ?z = Inr []"
    by simp
  have n: "flights_by_date down_state \<noteq> []" "length (api_errors down_state) = 6"
    by (simp_all add: down_state_def)
  from aggregate_failure_iff [of down_state world_down] down_final n(1)
  have c: "get_djerba_flights world_down = Inr (flights_by_date down_state)"
    by simp
  show ?thesis
    using a b down_final n c by (intro conjI) assumption+
qed

text \<open>
  C3 as stated leaves no third case, but on the last day of the range \<open>get_dates\<close> raises
  before there is a dictionary or an error: the handler neither raises the 500 with the
  errors nor returns a dictionary.
\<close>

theorem handler_overflow:
  "valid_datetime (clock_now world_last_day) \<and>
   final_state world_last_day = Inl OverflowError \<and>
   get_djerba_flights world_last_day = Inl OverflowError"
  by (simp add: get_djerba_flights_def final_state_def world_last_day_def datetime_max_def
      MAXYEAR_def MINYEAR_def get_dates_def add_datetime_timedelta_def normalize_y_m_d_def
      days_in_month_def DAYS_IN_MONTH_def valid_datetime_def)

text \<open>
  C4. When the dictionary holds at least one date, the handler returns the dictionary and
  nothing else: the response is the same for every run that ends with the same
  dictionary, whatever errors were recorded.
\<close>

theorem errors_dropped:
  assumes "final_state w = Inr st" and "flights_by_date st \<noteq> []"
  shows "get_djerba_flights w = Inr (flights_by_date st) \<and>
    (\<forall>w' st'. final_state w' = Inr st' \<and> flights_by_date st' = flights_by_date st \<longrightarrow>
       get_djerba_flights w' = get_djerba_flights w)"
  using assms by (auto simp: get_djerba_flights_def respond_def)

text \<open>The sample run records four errors; its response is the dictionary alone.\<close>

theorem errors_dropped_witness:
  "final_state sample_world = Inr sample_state \<and> flights_by_date sample_state \<noteq> [] \<and>
   length (api_errors sample_state) = 4 \<and>
   get_djerba_flights sample_world =
     Inr [(''14-03-2024'', \<lparr>departures = [], arrivals = []\<rparr>),
          (''15-03-2024'', \<lparr>departures = [nouvelair_flight], arrivals = []\<rparr>),
          (''16-03-2024'', \<lparr>departures = [], arrivals = [tunisair_flight]\<rparr>)]"
proof -
  have n: "flights_by_date sample_state \<noteq> []"
    by (simp add: sample_state_def)
  from errors_dropped [OF sample_final n]
  have "get_djerba_flights sample_world = Inr (flights_by_date sample_state)"
    by (rule conjunct1)
  then show ?thesis
    using sample_final n by (simp add: sample_state_def)
qed

lemma strip_split:
  "\<exists>l r. s = l @ strip s @ r \<and> list_all isspace l \<and> list_all isspace r"
proof -
  define a where "a = dropWhile isspace s"
  define b where "b = dropWhile isspace (rev a)"
  have s: "s = takeWhile isspace s @ a"
    by (simp add: a_def)
  have "rev a = takeWhile isspace (rev a) @ b"
    by (simp add: b_def)
  then have "rev (rev a) = rev (takeWhile isspace (rev a) @ b)"
    by simp
  then have a: "a = rev b @ rev (takeWhile isspace (rev a))"
    by simp
  have e: "strip s = rev b"
    by (simp add: strip_def a_def b_def)
  have "list_all isspace (takeWhile isspace s)"
    "list_all isspace (rev (takeWhile isspace (rev a)))"
    by (auto simp: list_all_iff dest: set_takeWhileD)
  moreover have "s = takeWhile isspace s @ strip s @ rev (takeWhile isspace (rev a))"
    using s a e by simp
  ultimately show ?thesis
    by blast
qed

lemma strip_trimmed:
  "strip s = [] \<or> (\<not> isspace (hd (strip s)) \<and> \<not> isspace (last (strip s)))"
proof (cases "strip s = []")
  case True
  then show ?thesis by simp
next
  case False
  define a where "a = dropWhile isspace s"
  define b where "b = dropWhile isspace (rev a)"
  have e: "strip s = rev b"
    by (simp add: strip_def a_def b_def)
  with False have b: "b \<noteq> []" by simp
  then have hb: "\<not> isspace (hd b)"
    unfolding b_def by (rule hd_dropWhile)
  have "rev a = takeWhile isspace (rev a) @ b"
    by (simp add: b_def)
  then have "rev (rev a) = rev (takeWhile isspace (rev a) @ b)"
    by simp
  then have a: "a = rev b @ rev (takeWhile isspace (rev a))"
    by simp
  with b have an: "a \<noteq> []" by auto
  then have "\<not> isspace (hd a)"
    unfolding a_def by (rule hd_dropWhile)
  moreover have "hd a = hd (rev b)"
    using a b by (metis hd_append2 rev_is_Nil_conv)
  moreover have "last (rev b) = hd b"
    using b by (simp add: last_rev)
  ultimately show ?thesis
    using hb e by simp
qed

lemma describes_make_flight:
  assumes "describes item f"
  shows "make_flight item = Inr f"
proof -
  from assms obtain kvs where item: "item = JDict kvs"
    by (cases item) (simp_all add: describes_def)
  from assms item obtain c where
    f: "map_of kvs ''direction'' = Some (JString (destination f))"
      "map_of kvs ''heure'' = Some (JString (time f))"
      "map_of kvs ''compagnie'' = Some (JString c)" "company f = strip c"
      "map_of kvs ''numVol'' = Some (JString (fnumber f))"
      "map_of kvs ''commentaire'' = Some (case comment f of None \<Rightarrow> JNull | Some s \<Rightarrow> JString s)"
    by (auto simp: describes_def split: option.splits json.splits)
  show ?thesis
    using f(4)
    by (cases "comment f")
      (simp_all add: make_flight_def item f(1,2,3,5,6) FlightDetails_init_def)
qed

lemma describes_flight_details:
  "list_all2 describes items fs \<Longrightarrow> flight_details items = Inr fs"
  by (induction items fs rule: list_all2_induct) (simp_all add: describes_make_flight)

lemma describes_trimmed:
  assumes "describes item f"
  shows "company f = [] \<or> (\<not> isspace (hd (company f)) \<and> \<not> isspace (last (company f)))"
proof -
  from assms obtain c where "company f = strip c"
    by (cases item) (auto simp: describes_def split: option.splits json.splits)
  then show ?thesis
    using strip_trimmed [of c] by simp
qed

lemma url_inj:
  assumes "length dy = length dy'" and "length mo = length mo'"
    and "url mv p dy mo yr = url mv' p dy' mo' yr'"
  shows "mv = mv' \<and> dy = dy' \<and> mo = mo' \<and> yr = yr'"
  using assms by (cases mv; cases mv') (simp_all add: url_def)

lemma request_url_inj:
  assumes "rendered a" and "rendered b" and "request_url mv a = request_url mv' b"
  shows "mv = mv' \<and> a = b"
proof -
  from assms(1,2) have l: "length (strftime_d a) = length (strftime_d b)"
    "length (strftime_m a) = length (strftime_m b)"
    by (simp_all add: rendered_def padded_def)
  from url_inj [OF l assms(3) [unfolded request_url_def]]
  have e: "mv = mv'" "strftime_d a = strftime_d b" "strftime_m a = strftime_m b"
    "strftime_Y a = strftime_Y b"
    by simp_all
  then have "date_key a = date_key b"
    by (simp add: date_key_def)
  with assms(1,2) have "a = b"
    by (rule rendered_key_inj)
  with e(1) show ?thesis by simp
qed

lemma process_movement_state:
  assumes "map_of (flights_by_date st) cd = Some df"
  shows "process_movement w cd dy mo yr mv st =
    st\<lparr>flights_by_date :=
         AList.update cd (extend_flights mv (fetched w (url mv ''djerba'' dy mo yr)) df)
           (flights_by_date st),
       api_errors :=
         api_errors st @ error_entries cd mv (failure w (url mv ''djerba'' dy mo yr))\<rparr>"
proof -
  obtain fb es where st: "st = \<lparr>flights_by_date = fb, api_errors = es\<rparr>"
    by (cases st) auto
  from assms have "map_of fb cd = Some df"
    by (simp add: st)
  then show ?thesis
    by (simp add: st process_movement_present)
qed

text \<open>
  C6. When the body of the fetch for a date of the window and a movement is a list of
  records, each carrying the five fields as strings (the comment may be null), the
  comprehension maps every record, in order, to the flight with destination, time,
  flight number and comment as given and the company stripped of the white space around
  it; processing the pair appends these flights to the list of that movement under the
  key of that date, and in the response of the handler that list is exactly these
  flights. No company of the result starts or ends with white space.
\<close>

theorem records_mapped:
  assumes win: "window Y (clock_now w) M" and t: "t \<in> set [Y, clock_now w, M]"
    and body: "client_get w (request_url mv t) = Inr (JList items)"
    and recs: "list_all2 describes items fs"
  shows "flight_details items = Inr fs \<and>
    (\<forall>st df. map_of (flights_by_date st) (date_key t) = Some df \<longrightarrow>
       process_movement w (date_key t) (strftime_d t) (strftime_m t) (strftime_Y t) mv st =
         st\<lparr>flights_by_date :=
              AList.update (date_key t)
                (if mv = Departures then df\<lparr>departures := departures df @ fs\<rparr>
                 else df\<lparr>arrivals := arrivals df @ fs\<rparr>)
                (flights_by_date st)\<rparr>) \<and>
    (\<exists>fb. get_djerba_flights w = Inr fb \<and> flights_of fb (date_key t) mv = fs) \<and>
    list_all (\<lambda>f. company f = [] \<or>
       (\<not> isspace (hd (company f)) \<and> \<not> isspace (last (company f)))) fs"
proof -
  have fd: "flight_details items = Inr fs"
    using recs by (rule describes_flight_details)
  have body': "client_get w (url mv ''djerba'' (strftime_d t) (strftime_m t) (strftime_Y t))
      = Inr (JList items)"
    using body by (simp add: request_url_def)
  have fe: "fetched w (url mv ''djerba'' (strftime_d t) (strftime_m t) (strftime_Y t)) = fs"
    "failure w (url mv ''djerba'' (strftime_d t) (strftime_m t) (strftime_Y t)) = None"
    by (simp_all add: fetched_def failure_def body' fd)
  have p: "process_movement w (date_key t) (strftime_d t) (strftime_m t) (strftime_Y t) mv st =
         st\<lparr>flights_by_date :=
              AList.update (date_key t)
                (if mv = Departures then df\<lparr>departures := departures df @ fs\<rparr>
                 else df\<lparr>arrivals := arrivals df @ fs\<rparr>)
                (flights_by_date st)\<rparr>"
    if "map_of (flights_by_date st) (date_key t) = Some df" for st df
    by (simp add: process_movement_state [OF that] fe error_entries_def extend_flights_def)
  from window_pairs [OF win t, of mv] obtain st :: state where
    st: "get_djerba_flights w = Inr (flights_by_date st)"
      "flights_of (flights_by_date st) (date_key t) mv = produced w mv t"
    by blast
  have "produced w mv t = fs"
    using fe(1) by (simp add: produced_def request_url_def)
  with st have r: "\<exists>fb. get_djerba_flights w = Inr fb \<and> flights_of fb (date_key t) mv = fs"
    by auto
  have tr: "list_all (\<lambda>f. company f = [] \<or>
       (\<not> isspace (hd (company f)) \<and> \<not> isspace (last (company f)))) fs"
    using recs by (induction items fs rule: list_all2_induct) (simp_all add: describes_trimmed)
  show ?thesis
    using fd p r tr by (intro conjI allI impI) assumption+
qed

text \<open>
  The mocked departures of today in the sample run give the one flight of Nouvelair under
  today's key, and a company given as \<^verbatim>\<open>" TunisAir "\<close> is stored as \<^verbatim>\<open>"TunisAir"\<close>.
\<close>

theorem records_mapped_witness:
  "window sample_yesterday (clock_now sample_world) sample_tomorrow \<and>
   sample_today \<in> set [sample_yesterday, clock_now sample_world, sample_tomorrow] \<and>
   client_get sample_world (request_url Departures sample_today) =
     Inr (JList [JDict [(''direction'', JString ''TUN''), (''heure'', JString ''14:30''),
       (''compagnie'', JString ''Nouvelair''), (''numVol'', JString ''BJ101''),
       (''commentaire'', JNull)]]) \<and>
   list_all2 describes
     [JDict [(''direction'', JString ''TUN''), (''heure'', JString ''14:30''),
       (''compagnie'', JString ''Nouvelair''), (''numVol'', JString ''BJ101''),
       (''commentaire'', JNull)]]
     [\<lparr>destination = ''TUN'', time = ''14:30'', company = ''Nouvelair'', fnumber = ''BJ101'',
       comment = None\<rparr>] \<and>
   (\<exists>fb. get_djerba_flights sample_world = Inr fb \<and>
      flights_of fb ''15-03-2024'' Departures =
        [\<lparr>destination = ''TUN'', time = ''14:30'', company = ''Nouvelair'',
          fnumber = ''BJ101'', comment = None\<rparr>]) \<and>
   describes tunisair_record
     \<lparr>destination = ''PARIS'', time = ''09:05'', company = ''TunisAir'', fnumber = ''TU718'',
      comment = Some ''Retard''\<rparr> \<and>
   strip '' TunisAir '' = ''TunisAir''"
proof -
  have win: "window sample_yesterday (clock_now sample_world) sample_tomorrow"
    by (simp add: sample_clock sample_window)
  have t: "sample_today \<in> set [sample_yesterday, clock_now sample_world, sample_tomorrow]"
    by (simp add: sample_clock)
  have body: "client_get sample_world (request_url Departures sample_today) =
      Inr (JList [nouvelair_record])"
    by (simp add: sample_client sample_get_values)
  have d: "describes nouvelair_record nouvelair_flight"
    by (simp add: describes_def nouvelair_record_def nouvelair_flight_def strip_def
        isspace_def)
  then have recs: "list_all2 describes [nouvelair_record] [nouvelair_flight]"
    by simp
  have d': "describes tunisair_record tunisair_flight"
    by (simp add: describes_def tunisair_record_def tunisair_flight_def strip_def
        isspace_def)
  from records_mapped [OF win t body recs]
  have "\<exists>fb. get_djerba_flights sample_world = Inr fb \<and>
      flights_of fb (date_key sample_today) Departures = [nouvelair_flight]"
    by (elim conjE)
  then show ?thesis
    using win t body recs d'
    by (simp add: sample_keys nouvelair_record_def nouvelair_flight_def tunisair_flight_def
        strip_tunisair)
qed

lemma not_list_failure:
  assumes "client_get w u = Inr body" and "\<not> is_list body"
  shows "failure w u = Some ''Unexpected response format''" and "fetched w u = []"
  using assms by (cases body; simp add: failure_def fetched_def)+

lemma not_list_step:
  assumes "client_get w (url mv ''djerba'' dy mo yr) = Inr body" and "\<not> is_list body"
  shows "process_movement w cd dy mo yr mv st =
    st\<lparr>api_errors := api_errors st @
         [\<lparr>date = cd, movement = movement_label mv,
           error = ''Unexpected response format''\<rparr>]\<rparr>"
  using assms
  by (cases body) (simp_all add: process_movement_def try_body_def append_error_def)

text \<open>
  C7 (as amended). When the body of the fetch for a date of the window and a movement is
  JSON but not a list, processing the pair leaves the dictionary as it was and appends one
  error with that date, that movement and the message \<^verbatim>\<open>Unexpected response format\<close>; the
  handler returns its dictionary, in which the list of that pair is empty, and every pair
  of the window, the later ones too, has contributed its own flights and errors.
\<close>

theorem not_a_list_recorded:
  assumes win: "window Y (clock_now w) M" and t: "t \<in> set [Y, clock_now w, M]"
    and body: "client_get w (request_url mv t) = Inr body" and nl: "\<not> is_list body"
  shows "(\<forall>st. process_movement w (date_key t) (strftime_d t) (strftime_m t) (strftime_Y t)
        mv st =
      st\<lparr>api_errors := api_errors st @
           [\<lparr>date = date_key t, movement = movement_label mv,
             error = ''Unexpected response format''\<rparr>]\<rparr>) \<and>
    (\<exists>st. final_state w = Inr st \<and> get_djerba_flights w = Inr (flights_by_date st) \<and>
       flights_of (flights_by_date st) (date_key t) mv = [] \<and>
       errors_for (date_key t) mv (api_errors st) =
         [\<lparr>date = date_key t, movement = movement_label mv,
           error = ''Unexpected response format''\<rparr>] \<and>
       (\<forall>t' \<in> set [Y, clock_now w, M]. \<forall>mv'.
          flights_of (flights_by_date st) (date_key t') mv' = produced w mv' t' \<and>
          errors_for (date_key t') mv' (api_errors st) = recorded w mv' t'))"
proof -
  have body': "client_get w (url mv ''djerba'' (strftime_d t) (strftime_m t) (strftime_Y t))
      = Inr body"
    using body by (simp add: request_url_def)
  have step: "\<forall>st. process_movement w (date_key t) (strftime_d t) (strftime_m t)
        (strftime_Y t) mv st =
      st\<lparr>api_errors := api_errors st @
           [\<lparr>date = date_key t, movement = movement_label mv,
             error = ''Unexpected response format''\<rparr>]\<rparr>"
    using not_list_step [OF body' nl] by simp
  obtain st :: state where st: "final_state w = Inr st"
    by (simp add: final_state_window [OF win])
  have g: "get_djerba_flights w = Inr (flights_by_date st)"
    using window_pairs [OF win t, of mv] st by auto
  have all: "flights_of (flights_by_date st) (date_key t') mv' = produced w mv' t' \<and>
      errors_for (date_key t') mv' (api_errors st) = recorded w mv' t'"
    if "t' \<in> set [Y, clock_now w, M]" for t' mv'
    using window_pairs [OF win that, of mv'] st by auto
  have p: "produced w mv t = []"
    using not_list_failure(2) [OF body nl] by (simp add: produced_def)
  have r: "recorded w mv t =
      [\<lparr>date = date_key t, movement = movement_label mv,
        error = ''Unexpected response format''\<rparr>]"
    using not_list_failure(1) [OF body nl] by (simp add: recorded_def error_entries_def)
  have own: "flights_of (flights_by_date st) (date_key t) mv = []"
    "errors_for (date_key t) mv (api_errors st) =
      [\<lparr>date = date_key t, movement = movement_label mv,
        error = ''Unexpected response format''\<rparr>]"
    using all [OF t, of mv] p r by simp_all
  have rest: "\<forall>t' \<in> set [Y, clock_now w, M]. \<forall>mv'.
      flights_of (flights_by_date st) (date_key t') mv' = produced w mv' t' \<and>
      errors_for (date_key t') mv' (api_errors st) = recorded w mv' t'"
    using all by blast
  have "\<exists>st. final_state w = Inr st \<and> get_djerba_flights w = Inr (flights_by_date st) \<and>
       flights_of (flights_by_date st) (date_key t) mv = [] \<and>
       errors_for (date_key t) mv (api_errors st) =
         [\<lparr>date = date_key t, movement = movement_label mv,
           error = ''Unexpected response format''\<rparr>] \<and>
       (\<forall>t' \<in> set [Y, clock_now w, M]. \<forall>mv'.
          flights_of (flights_by_date st) (date_key t') mv' = produced w mv' t' \<and>
          errors_for (date_key t') mv' (api_errors st) = recorded w mv' t')"
    using st g own rest by (intro exI [of _ st] conjI) assumption+
  with step show ?thesis
    by (rule conjI)
qed

text \<open>
  In the sample run the arrivals of today are an object: the pair leaves an empty list and
  the one error, and the two pairs of tomorrow are processed after it.
\<close>

theorem not_a_list_recorded_witness:
  "window sample_yesterday (clock_now sample_world) sample_tomorrow \<and>
   sample_today \<in> set [sample_yesterday, clock_now sample_world, sample_tomorrow] \<and>
   client_get sample_world (request_url Arrivals sample_today) =
     Inr (JDict [(''status'', JString ''maintenance'')]) \<and>
   \<not> is_list (JDict [(''status'', JString ''maintenance'')]) \<and>
   final_state sample_world = Inr sample_state \<and>
   flights_of (flights_by_date sample_state) ''15-03-2024'' Arrivals = [] \<and>
   errors_for ''15-03-2024'' Arrivals (api_errors sample_state) =
     [\<lparr>date = ''15-03-2024'', movement = ''arrivals'',
       error = ''Unexpected response format''\<rparr>] \<and>
   flights_of (flights_by_date sample_state) ''16-03-2024'' Arrivals = [tunisair_flight]"
proof -
  have win: "window sample_yesterday (clock_now sample_world) sample_tomorrow"
    by (simp add: sample_clock sample_window)
  have t: "sample_today \<in> set [sample_yesterday, clock_now sample_world, sample_tomorrow]"
    by (simp add: sample_clock)
  have body: "client_get sample_world (request_url Arrivals sample_today) =
      Inr (JDict [(''status'', JString ''maintenance'')])"
    by (simp add: sample_client sample_get_values)
  have nl: "\<not> is_list (JDict [(''status'', JString ''maintenance'')])"
    by simp
  from not_a_list_recorded [OF win t body nl] obtain st :: state where
    st: "final_state sample_world = Inr st"
      "flights_of (flights_by_date st) (date_key sample_today) Arrivals = []"
      "errors_for (date_key sample_today) Arrivals (api_errors st) =
        [\<lparr>date = date_key sample_today, movement = movement_label Arrivals,
          error = ''Unexpected response format''\<rparr>]"
      "\<forall>t' \<in> set [sample_yesterday, clock_now sample_world, sample_tomorrow]. \<forall>mv'.
          flights_of (flights_by_date st) (date_key t') mv' = produced sample_world mv' t' \<and>
          errors_for (date_key t') mv' (api_errors st) = recorded sample_world mv' t'"
    by blast
  from st(1) have e: "st = sample_state"
    by (simp add: sample_final)
  from st(4) have "flights_of (flights_by_date st) (date_key sample_tomorrow) Arrivals =
      produced sample_world Arrivals sample_tomorrow"
    by simp
  then show ?thesis
    using win t body nl st(2,3)
    by (simp add: e sample_final sample_keys sample_produced movement_label_def)
qed

text \<open>
  C7 as stated names the message \<^verbatim>\<open>unexpected response format\<close>. In the sample run, where
  the arrivals of today are an object, no recorded error carries that message: the one
  recorded for the pair reads \<^verbatim>\<open>Unexpected response format\<close>.
\<close>

theorem not_a_list_message:
  "client_get sample_world (request_url Arrivals sample_today) =
     Inr (JDict [(''status'', JString ''maintenance'')]) \<and>
   final_state sample_world = Inr sample_state \<and>
   ''unexpected response format'' \<notin> error ` set (api_errors sample_state) \<and>
   errors_for ''15-03-2024'' Arrivals (api_errors sample_state) =
     [\<lparr>date = ''15-03-2024'', movement = ''arrivals'',
       error = ''Unexpected response format''\<rparr>]"
  by (simp add: sample_client sample_get_values sample_final)
    (simp add: sample_state_def errors_for_def movement_label_def sample_exc_str_def)

lemma window_rendered:
  assumes "window Y T M" and "t \<in> set [Y, T, M]"
  shows "rendered t"
  using window_props(1,2,3) [OF assms(1)] assms(2) by (auto simp: valid_rendered)

lemma window_dates_distinct:
  assumes "window Y T M"
  shows "Y \<noteq> T" and "T \<noteq> M" and "Y \<noteq> M"
  using window_props(4,5) [OF assms] by auto

lemma window_url_eq:
  assumes win: "window Y T M" and a: "a \<in> set [Y, T, M]" and b: "b \<in> set [Y, T, M]"
  shows "(request_url mv a = request_url mv' b) = (mv = mv' \<and> a = b)"
  using request_url_inj [OF window_rendered [OF win a] window_rendered [OF win b]]
  by auto

lemma window_urls_distinct:
  assumes win: "window Y T M"
  shows "distinct [request_url Departures Y, request_url Arrivals Y,
      request_url Departures T, request_url Arrivals T,
      request_url Departures M, request_url Arrivals M]"
proof -
  have m: "Y \<in> set [Y, T, M]" "T \<in> set [Y, T, M]" "M \<in> set [Y, T, M]"
    by simp_all
  note d = window_dates_distinct [OF win]
  show ?thesis
    using d
    by (simp add: window_url_eq [OF win m(1) m(1)] window_url_eq [OF win m(1) m(2)]
        window_url_eq [OF win m(1) m(3)] window_url_eq [OF win m(2) m(2)]
        window_url_eq [OF win m(2) m(3)] window_url_eq [OF win m(3) m(3)])
qed

text \<open>
  C8. In the response every list is exactly what the fetch for its own date and its own
  movement produced: the departures under the key of a date are the flights of that date's
  departures request, the arrivals those of its arrivals request. The three keys are
  distinct and so are the six requests, and what a pair's fetch produces depends on the
  answer to that one request alone: a run with the same clock that differs in the
  answers to the other five requests holds the same list for the pair.
\<close>

theorem no_cross_contamination:
  assumes win: "window Y (clock_now w) M"
  shows "get_djerba_flights w =
      Inr [(date_key Y,
            \<lparr>departures = produced w Departures Y, arrivals = produced w Arrivals Y\<rparr>),
           (date_key (clock_now w),
            \<lparr>departures = produced w Departures (clock_now w),
             arrivals = produced w Arrivals (clock_now w)\<rparr>),
           (date_key M,
            \<lparr>departures = produced w Departures M, arrivals = produced w Arrivals M\<rparr>)] \<and>
    distinct [date_key Y, date_key (clock_now w), date_key M] \<and>
    distinct [request_url Departures Y, request_url Arrivals Y,
      request_url Departures (clock_now w), request_url Arrivals (clock_now w),
      request_url Departures M, request_url Arrivals M] \<and>
    (\<forall>t \<in> set [Y, clock_now w, M]. \<forall>mv w'.
       clock_now w' = clock_now w \<and>
       client_get w' (request_url mv t) = client_get w (request_url mv t) \<longrightarrow>
       (\<exists>fb fb'. get_djerba_flights w = Inr fb \<and> get_djerba_flights w' = Inr fb' \<and>
          flights_of fb' (date_key t) mv = flights_of fb (date_key t) mv))"
proof -
  have same: "\<exists>fb fb'. get_djerba_flights w = Inr fb \<and> get_djerba_flights w' = Inr fb' \<and>
      flights_of fb' (date_key t) mv = flights_of fb (date_key t) mv"
    if t: "t \<in> set [Y, clock_now w, M]" and c: "clock_now w' = clock_now w"
      and g: "client_get w' (request_url mv t) = client_get w (request_url mv t)"
    for t mv w'
  proof -
    have win': "window Y (clock_now w') M"
      using win c by simp
    have t': "t \<in> set [Y, clock_now w', M]"
      using t c by simp
    from window_pairs [OF win t, of mv] obtain st :: state where
      st: "get_djerba_flights w = Inr (flights_by_date st)"
        "flights_of (flights_by_date st) (date_key t) mv = produced w mv t"
      by blast
    from window_pairs [OF win' t', of mv] obtain st' :: state where
      st': "get_djerba_flights w' = Inr (flights_by_date st')"
        "flights_of (flights_by_date st') (date_key t) mv = produced w' mv t"
      by blast
    have "produced w' mv t = produced w mv t"
      using g by (simp add: produced_def fetched_def)
    with st st' show ?thesis
      by auto
  qed
  have f4: "\<forall>t \<in> set [Y, clock_now w, M]. \<forall>mv w'.
       clock_now w' = clock_now w \<and>
       client_get w' (request_url mv t) = client_get w (request_url mv t) \<longrightarrow>
       (\<exists>fb fb'. get_djerba_flights w = Inr fb \<and> get_djerba_flights w' = Inr fb' \<and>
          flights_of fb' (date_key t) mv = flights_of fb (date_key t) mv)"
    using same by blast
  show ?thesis
    using window_response [OF win] window_keys [OF win] window_urls_distinct [OF win] f4
    by (intro conjI) assumption+
qed

text \<open>The response of the sample run: the flight of Nouvelair and that of TunisAir each sit where they were fetched.\<close>

theorem no_cross_contamination_witness:
  "window sample_yesterday (clock_now sample_world) sample_tomorrow \<and>
   get_djerba_flights sample_world =
     Inr [(''14-03-2024'', \<lparr>departures = [], arrivals = []\<rparr>),
          (''15-03-2024'', \<lparr>departures = [nouvelair_flight], arrivals = []\<rparr>),
          (''16-03-2024'', \<lparr>departures = [], arrivals = [tunisair_flight]\<rparr>)] \<and>
   produced sample_world Departures sample_today = [nouvelair_flight] \<and>
   produced sample_world Arrivals sample_tomorrow = [tunisair_flight]"
proof -
  have win: "window sample_yesterday (clock_now sample_world) sample_tomorrow"
    by (simp add: sample_clock sample_window)
  from no_cross_contamination [OF win]
  have "get_djerba_flights sample_world =
      Inr [(date_key sample_yesterday,
            \<lparr>departures = produced sample_world Departures sample_yesterday,
             arrivals = produced sample_world Arrivals sample_yesterday\<rparr>),
           (date_key (clock_now sample_world),
            \<lparr>departures = produced sample_world Departures (clock_now sample_world),
             arrivals = produced sample_world Arrivals (clock_now sample_world)\<rparr>),
           (date_key sample_tomorrow,
            \<lparr>departures = produced sample_world Departures sample_tomorrow,
             arrivals = produced sample_world Arrivals sample_tomorrow\<rparr>)]"
    by (rule conjunct1)
  then show ?thesis
    using win by (simp add: sample_clock sample_keys sample_produced)
qed

lemma failure_cases:
  assumes "failure w u = Some msg"
  shows "(\<forall>c b. client_get w u = Inl (HTTPStatusError c b) \<longrightarrow>
        msg = ''API error '' @ str_nat c @ '': '' @ b) \<and>
    (\<forall>r. client_get w u = Inl (RequestError r) \<longrightarrow>
        msg = ''Network error: '' @ exc_str w (RequestError r)) \<and>
    (\<forall>e. client_get w u = Inl e \<and> (\<forall>c b. e \<noteq> HTTPStatusError c b) \<and>
        (\<forall>r. e \<noteq> RequestError r) \<longrightarrow> msg = ''Unexpected error: '' @ exc_str w e) \<and>
    (\<forall>items e. client_get w u = Inr (JList items) \<and> flight_details items = Inl e \<longrightarrow>
        msg = ''Unexpected error: '' @ exc_str w e) \<and>
    (\<forall>body. client_get w u = Inr body \<and> \<not> is_list body \<longrightarrow>
        msg = ''Unexpected response format'')"
proof (intro conjI allI impI)
  fix c b assume "client_get w u = Inl (HTTPStatusError c b)"
  with assms show "msg = ''API error '' @ str_nat c @ '': '' @ b"
    by (simp add: failure_def)
next
  fix r assume "client_get w u = Inl (RequestError r)"
  with assms show "msg = ''Network error: '' @ exc_str w (RequestError r)"
    by (simp add: failure_def)
next
  fix e assume "client_get w u = Inl e \<and> (\<forall>c b. e \<noteq> HTTPStatusError c b) \<and>
      (\<forall>r. e \<noteq> RequestError r)"
  with assms show "msg = ''Unexpected error: '' @ exc_str w e"
    by (cases e) (simp_all add: failure_def)
next
  fix items e assume "client_get w u = Inr (JList items) \<and> flight_details items = Inl e"
  with assms show "msg = ''Unexpected error: '' @ exc_str w e"
    by (simp add: failure_def)
next
  fix body assume "client_get w u = Inr body \<and> \<not> is_list body"
  with assms show "msg = ''Unexpected response format''"
    by (cases body) (simp_all add: failure_def)
qed

lemma same_answer:
  assumes "client_get w' u = client_get w u" and "exc_str w' = exc_str w"
  shows "fetched w' u = fetched w u" and "failure w' u = failure w u"
  unfolding fetched_def failure_def assms by (rule refl)+

text \<open>
  C9. When the fetch for a date of the window and a movement fails, whether the client
  raises for an HTTP error status, for a network failure or for anything else, or the
  body cannot be mapped, the handler still returns its dictionary, in which the list of
  that pair is empty, and exactly one error is recorded for the pair: for an HTTP error
  status it reads \<^verbatim>\<open>API error\<close> with the status code and the text of the response, for a
  network failure \<^verbatim>\<open>Network error\<close> and for any other exception \<^verbatim>\<open>Unexpected error\<close>, each
  with the text of the exception. The other pairs are not touched: a run with the same
  clock that differs only in the answer to this one request ends with the same flights
  and the same errors for every other pair.
\<close>

theorem failures_isolated:
  assumes win: "window Y (clock_now w) M" and t: "t \<in> set [Y, clock_now w, M]"
    and fails: "fetch_fails w mv t"
  shows "\<exists>st msg. final_state w = Inr st \<and> get_djerba_flights w = Inr (flights_by_date st) \<and>
    failure w (request_url mv t) = Some msg \<and>
    errors_for (date_key t) mv (api_errors st) =
      [\<lparr>date = date_key t, movement = movement_label mv, error = msg\<rparr>] \<and>
    flights_of (flights_by_date st) (date_key t) mv = [] \<and>
    (\<forall>c b. client_get w (request_url mv t) = Inl (HTTPStatusError c b) \<longrightarrow>
        msg = ''API error '' @ str_nat c @ '': '' @ b) \<and>
    (\<forall>r. client_get w (request_url mv t) = Inl (RequestError r) \<longrightarrow>
        msg = ''Network error: '' @ exc_str w (RequestError r)) \<and>
    (\<forall>e. client_get w (request_url mv t) = Inl e \<and> (\<forall>c b. e \<noteq> HTTPStatusError c b) \<and>
        (\<forall>r. e \<noteq> RequestError r) \<longrightarrow> msg = ''Unexpected error: '' @ exc_str w e) \<and>
    (\<forall>items e. client_get w (request_url mv t) = Inr (JList items) \<and>
        flight_details items = Inl e \<longrightarrow> msg = ''Unexpected error: '' @ exc_str w e) \<and>
    (\<forall>w'. clock_now w' = clock_now w \<and> exc_str w' = exc_str w \<and>
        (\<forall>u. u \<noteq> request_url mv t \<longrightarrow> client_get w' u = client_get w u) \<longrightarrow>
        (\<exists>st'. final_state w' = Inr st' \<and>
           get_djerba_flights w' = Inr (flights_by_date st') \<and>
           (\<forall>t' \<in> set [Y, clock_now w, M]. \<forall>mv'. (t', mv') \<noteq> (t, mv) \<longrightarrow>
              flights_of (flights_by_date st') (date_key t') mv' =
                flights_of (flights_by_date st) (date_key t') mv' \<and>
              errors_for (date_key t') mv' (api_errors st') =
                errors_for (date_key t') mv' (api_errors st))))"
proof -
  from fails obtain msg where msg: "failure w (request_url mv t) = Some msg"
    by (auto simp: fetch_fails_def)
  obtain st :: state where st: "final_state w = Inr st"
    by (simp add: final_state_window [OF win])
  have pairs: "get_djerba_flights w = Inr (flights_by_date st) \<and>
      flights_of (flights_by_date st) (date_key t') mv' = produced w mv' t' \<and>
      errors_for (date_key t') mv' (api_errors st) = recorded w mv' t'"
    if "t' \<in> set [Y, clock_now w, M]" for t' mv'
    using window_pairs [OF win that, of mv'] st by auto
  have g: "get_djerba_flights w = Inr (flights_by_date st)"
    using pairs [OF t] by simp
  have own: "errors_for (date_key t) mv (api_errors st) =
      [\<lparr>date = date_key t, movement = movement_label mv, error = msg\<rparr>]"
    "flights_of (flights_by_date st) (date_key t) mv = []"
    using pairs [OF t, of mv] msg failure_fetched [of w "request_url mv t"]
    by (simp_all add: recorded_def error_entries_def produced_def)
  note fc = failure_cases [OF msg]
  have others: "\<exists>st'. final_state w' = Inr st' \<and>
      get_djerba_flights w' = Inr (flights_by_date st') \<and>
      (\<forall>t' \<in> set [Y, clock_now w, M]. \<forall>mv'. (t', mv') \<noteq> (t, mv) \<longrightarrow>
         flights_of (flights_by_date st') (date_key t') mv' =
           flights_of (flights_by_date st) (date_key t') mv' \<and>
         errors_for (date_key t') mv' (api_errors st') =
           errors_for (date_key t') mv' (api_errors st))"
    if c: "clock_now w' = clock_now w" and x: "exc_str w' = exc_str w"
      and a: "\<forall>u. u \<noteq> request_url mv t \<longrightarrow> client_get w' u = client_get w u"
    for w'
  proof -
    have win': "window Y (clock_now w') M"
      using win c by simp
    obtain st' :: state where st': "final_state w' = Inr st'"
      by (simp add: final_state_window [OF win'])
    have pairs': "get_djerba_flights w' = Inr (flights_by_date st') \<and>
        flights_of (flights_by_date st') (date_key t') mv' = produced w' mv' t' \<and>
        errors_for (date_key t') mv' (api_errors st') = recorded w' mv' t'"
      if "t' \<in> set [Y, clock_now w, M]" for t' mv'
    proof -
      from that c have "t' \<in> set [Y, clock_now w', M]" by simp
      from window_pairs [OF win' this, of mv'] st' show ?thesis by auto
    qed
    have eq: "flights_of (flights_by_date st') (date_key t') mv' =
          flights_of (flights_by_date st) (date_key t') mv' \<and>
        errors_for (date_key t') mv' (api_errors st') =
          errors_for (date_key t') mv' (api_errors st)"
      if m: "t' \<in> set [Y, clock_now w, M]" and ne: "(t', mv') \<noteq> (t, mv)" for t' mv'
    proof -
      have "request_url mv' t' \<noteq> request_url mv t"
        using window_url_eq [OF win m t, of mv' mv] ne by auto
      with a have "client_get w' (request_url mv' t') = client_get w (request_url mv' t')"
        by simp
      from same_answer [OF this x]
      have "produced w' mv' t' = produced w mv' t'" "recorded w' mv' t' = recorded w mv' t'"
        by (simp_all add: produced_def recorded_def)
      with pairs [OF m, of mv'] pairs' [OF m, of mv'] show ?thesis
        by simp
    qed
    have "\<forall>t' \<in> set [Y, clock_now w, M]. \<forall>mv'. (t', mv') \<noteq> (t, mv) \<longrightarrow>
         flights_of (flights_by_date st') (date_key t') mv' =
           flights_of (flights_by_date st) (date_key t') mv' \<and>
         errors_for (date_key t') mv' (api_errors st') =
           errors_for (date_key t') mv' (api_errors st)"
      using eq by blast
    moreover have "get_djerba_flights w' = Inr (flights_by_date st')"
      using pairs' [OF t] by simp
    ultimately show ?thesis
      using st' by (intro exI [of _ st'] conjI) assumption+
  qed
  have iso: "\<forall>w'. clock_now w' = clock_now w \<and> exc_str w' = exc_str w \<and>
        (\<forall>u. u \<noteq> request_url mv t \<longrightarrow> client_get w' u = client_get w u) \<longrightarrow>
        (\<exists>st'. final_state w' = Inr st' \<and>
           get_djerba_flights w' = Inr (flights_by_date st') \<and>
           (\<forall>t' \<in> set [Y, clock_now w, M]. \<forall>mv'. (t', mv') \<noteq> (t, mv) \<longrightarrow>
              flights_of (flights_by_date st') (date_key t') mv' =
                flights_of (flights_by_date st) (date_key t') mv' \<and>
              errors_for (date_key t') mv' (api_errors st') =
                errors_for (date_key t') mv' (api_errors st)))"
    using others by blast
  show ?thesis
    using st g msg own fc iso
    by (intro exI [of _ st] exI [of _ msg] conjI) (assumption | elim conjE)+
qed

text \<open>
  In the sample run the departures of yesterday answer 503: one error with the status
  and the text, an empty list for the pair, and the departures of today are there.
\<close>

theorem failures_isolated_witness:
  "window sample_yesterday (clock_now sample_world) sample_tomorrow \<and>
   sample_yesterday \<in> set [sample_yesterday, clock_now sample_world, sample_tomorrow] \<and>
   fetch_fails sample_world Departures sample_yesterday \<and>
   client_get sample_world (request_url Departures sample_yesterday) =
     Inl (HTTPStatusError 503 ''Service Unavailable'') \<and>
   final_state sample_world = Inr sample_state \<and>
   errors_for ''14-03-2024'' Departures (api_errors sample_state) =
     [\<lparr>date = ''14-03-2024'', movement = ''departures'',
       error = ''API error 503: Service Unavailable''\<rparr>] \<and>
   flights_of (flights_by_date sample_state) ''14-03-2024'' Departures = [] \<and>
   flights_of (flights_by_date sample_state) ''15-03-2024'' Departures = [nouvelair_flight]"
proof -
  have win: "window sample_yesterday (clock_now sample_world) sample_tomorrow"
    by (simp add: sample_clock sample_window)
  have t: "sample_yesterday \<in> set [sample_yesterday, clock_now sample_world, sample_tomorrow]"
    by simp
  have body: "client_get sample_world (request_url Departures sample_yesterday) =
      Inl (HTTPStatusError 503 ''Service Unavailable'')"
    by (simp add: sample_client sample_get_values)
  have fails: "fetch_fails sample_world Departures sample_yesterday"
    by (simp add: fetch_fails_def failure_def body)
  from failures_isolated [OF win t fails] obtain st :: state and msg where
    st: "final_state sample_world = Inr st"
    and e: "errors_for (date_key sample_yesterday) Departures (api_errors st) =
        [\<lparr>date = date_key sample_yesterday, movement = movement_label Departures,
          error = msg\<rparr>]"
    and f: "flights_of (flights_by_date st) (date_key sample_yesterday) Departures = []"
    and h: "\<forall>c b. client_get sample_world (request_url Departures sample_yesterday) =
          Inl (HTTPStatusError c b) \<longrightarrow> msg = ''API error '' @ str_nat c @ '': '' @ b"
    by blast
  from st have s: "st = sample_state"
    by (simp add: sample_final)
  from h body have "msg = ''API error '' @ str_nat 503 @ '': '' @ ''Service Unavailable''"
    by blast
  then have m: "msg = ''API error 503: Service Unavailable''"
    by (simp add: str_nat.simps digit_char_def)
  have o: "flights_of (flights_by_date sample_state) ''15-03-2024'' Departures =
      [nouvelair_flight]"
    by (simp add: sample_state_def flights_of_def)
  show ?thesis
    using win t fails body e f o
    by (simp add: s m sample_final sample_keys movement_label_def)
qed

lemma flight_details_all_mapped:
  "flight_details items = Inr fs \<Longrightarrow> item \<in> set items \<Longrightarrow> \<not> isl (make_flight item)"
proof (induction items arbitrary: fs)
  case Nil
  then show ?case by simp
next
  case (Cons a items)
  from Cons.prems(1) obtain f fs' where a: "make_flight a = Inr f"
    and r: "flight_details items = Inr fs'"
    by (auto split: sum.splits)
  show ?case
  proof (cases "item = a")
    case True
    with a show ?thesis by simp
  next
    case False
    with Cons.prems(2) have "item \<in> set items" by simp
    with r show ?thesis by (rule Cons.IH)
  qed
qed

lemma flight_details_fails:
  assumes "\<exists>item \<in> set items. isl (make_flight item)"
  shows "\<exists>e. flight_details items = Inl e"
proof (cases "flight_details items")
  case (Inl e)
  then show ?thesis by blast
next
  case (Inr fs)
  from assms obtain item where "item \<in> set items" "isl (make_flight item)"
    by blast
  with flight_details_all_mapped [OF Inr] show ?thesis
    by blast
qed

lemma missing_field:
  assumes "k \<in> set [''direction'', ''heure'', ''compagnie'', ''numVol'', ''commentaire'']"
    and "map_of kvs k = None"
  shows "isl (make_flight (JDict kvs))"
proof (rule ccontr)
  assume "\<not> isl (make_flight (JDict kvs))"
  then have "map_of kvs ''direction'' \<noteq> None \<and> map_of kvs ''heure'' \<noteq> None \<and>
      map_of kvs ''compagnie'' \<noteq> None \<and> map_of kvs ''numVol'' \<noteq> None \<and>
      map_of kvs ''commentaire'' \<noteq> None"
    by (auto simp: make_flight_def split: option.splits sum.splits)
  with assms show False
    by auto
qed

lemma unstrippable_company:
  assumes "map_of kvs ''compagnie'' = Some v" and "validate_str v = None"
  shows "isl (make_flight (JDict kvs))"
proof -
  from assms(2) have "call_strip v = Inl (AttributeError v)"
    by (cases v) simp_all
  then show ?thesis
    using assms(1) by (auto simp: make_flight_def split: option.splits sum.splits)
qed

lemma mapping_failure_step:
  assumes body: "client_get w (url mv ''djerba'' dy mo yr) = Inr (JList items)"
    and fd: "flight_details items = Inl e"
  shows "process_movement w cd dy mo yr mv st =
    st\<lparr>api_errors := api_errors st @
         [\<lparr>date = cd, movement = movement_label mv,
           error = ''Unexpected error: '' @ exc_str w e\<rparr>]\<rparr>"
proof -
  have m: "mapping_error e"
    using fd by (rule flight_details_error)
  have "try_body w cd (url mv ''djerba'' dy mo yr) mv st = Inl e"
    by (simp add: try_body_def body fd)
  then show ?thesis
    using m by (cases e) (simp_all add: process_movement_def append_error_def)
qed

text \<open>
  C10. When the body of a request is a list and mapping one of its records fails, the
  comprehension ends with that exception and no flight of the response is kept:
  processing the pair leaves the dictionary exactly as it was, so the list of the
  movement is what it was before, and appends one error, whose message is
  \<^verbatim>\<open>Unexpected error:\<close> followed by the text of the exception. A record that lacks one of
  the five fields fails, and so does one whose \<^verbatim>\<open>compagnie\<close> is not a string.
\<close>

theorem mapping_failure_atomic:
  assumes body: "client_get w (url mv ''djerba'' dy mo yr) = Inr (JList items)"
    and bad: "\<exists>item \<in> set items. isl (make_flight item)"
  shows "\<exists>e. flight_details items = Inl e \<and> mapping_error e \<and>
    process_movement w cd dy mo yr mv st =
      st\<lparr>api_errors := api_errors st @
           [\<lparr>date = cd, movement = movement_label mv,
             error = ''Unexpected error: '' @ exc_str w e\<rparr>]\<rparr> \<and>
    flights_by_date (process_movement w cd dy mo yr mv st) = flights_by_date st \<and>
    (\<forall>kvs k. k \<in> set [''direction'', ''heure'', ''compagnie'', ''numVol'', ''commentaire''] \<and>
       map_of kvs k = None \<longrightarrow> isl (make_flight (JDict kvs))) \<and>
    (\<forall>kvs v. map_of kvs ''compagnie'' = Some v \<and> validate_str v = None \<longrightarrow>
       isl (make_flight (JDict kvs)))"
proof -
  from flight_details_fails [OF bad] obtain e where fd: "flight_details items = Inl e"
    by blast
  have m: "mapping_error e"
    using fd by (rule flight_details_error)
  note step = mapping_failure_step [OF body fd, of cd st]
  have keep: "flights_by_date (process_movement w cd dy mo yr mv st) = flights_by_date st"
    by (simp add: step)
  have f1: "\<forall>kvs k. k \<in> set [''direction'', ''heure'', ''compagnie'', ''numVol'',
        ''commentaire''] \<and> map_of kvs k = None \<longrightarrow> isl (make_flight (JDict kvs))"
    using missing_field by blast
  have f2: "\<forall>kvs v. map_of kvs ''compagnie'' = Some v \<and> validate_str v = None \<longrightarrow>
       isl (make_flight (JDict kvs))"
    using unstrippable_company by blast
  show ?thesis
    using fd m step keep f1 f2 by (intro exI [of _ e] conjI) assumption+
qed

text \<open>
  In the sample run the departures of tomorrow hold a good record and one without
  \<^verbatim>\<open>numVol\<close>: processed on a dictionary that already has a flight under the key, the
  pair adds no flight, not even that of the good record, and records the one error.
\<close>

theorem mapping_failure_atomic_witness:
  "client_get sample_world (url Departures ''djerba'' ''16'' ''03'' ''2024'') =
     Inr (JList [tunisair_record, broken_record]) \<and>
   (\<exists>item \<in> set [tunisair_record, broken_record]. isl (make_flight item)) \<and>
   make_flight tunisair_record = Inr tunisair_flight \<and>
   flight_details [tunisair_record, broken_record] = Inl (KeyError ''numVol'') \<and>
   process_movement sample_world ''16-03-2024'' ''16'' ''03'' ''2024'' Departures
     \<lparr>flights_by_date =
        [(''16-03-2024'', \<lparr>departures = [nouvelair_flight], arrivals = []\<rparr>)],
      api_errors = []\<rparr> =
     \<lparr>flights_by_date =
        [(''16-03-2024'', \<lparr>departures = [nouvelair_flight], arrivals = []\<rparr>)],
      api_errors =
        [\<lparr>date = ''16-03-2024'', movement = ''departures'',
          error = ''Unexpected error: '' @ sample_exc_str (KeyError ''numVol'')\<rparr>]\<rparr>"
proof -
  let ?st = "\<lparr>flights_by_date =
        [(''16-03-2024'', \<lparr>departures = [nouvelair_flight], arrivals = []\<rparr>)],
      api_errors = []\<rparr>"
  have u: "url Departures ''djerba'' ''16'' ''03'' ''2024'' =
      request_url Departures sample_tomorrow"
    by (simp add: request_url_def strftime_sample)
  have body: "client_get sample_world (url Departures ''djerba'' ''16'' ''03'' ''2024'') =
      Inr (JList [tunisair_record, broken_record])"
    by (simp only: u) (simp add: sample_client sample_get_values)
  have bad: "\<exists>item \<in> set [tunisair_record, broken_record]. isl (make_flight item)"
    by (simp add: make_flight_samples)
  have fd: "flight_details [tunisair_record, broken_record] = Inl (KeyError ''numVol'')"
    by (simp add: make_flight_samples)
  from mapping_failure_atomic [OF body bad, of "''16-03-2024''" ?st] obtain e where
    e: "flight_details [tunisair_record, broken_record] = Inl e"
    and p: "process_movement sample_world ''16-03-2024'' ''16'' ''03'' ''2024'' Departures ?st =
      ?st\<lparr>api_errors := api_errors ?st @
           [\<lparr>date = ''16-03-2024'', movement = movement_label Departures,
             error = ''Unexpected error: '' @ exc_str sample_world e\<rparr>]\<rparr>"
    by blast
  from e fd have "e = KeyError ''numVol''"
    by simp
  with p have "process_movement sample_world ''16-03-2024'' ''16'' ''03'' ''2024'' Departures
      ?st =
     \<lparr>flights_by_date =
        [(''16-03-2024'', \<lparr>departures = [nouvelair_flight], arrivals = []\<rparr>)],
      api_errors =
        [\<lparr>date = ''16-03-2024'', movement = ''departures'',
          error = ''Unexpected error: '' @ sample_exc_str (KeyError ''numVol'')\<rparr>]\<rparr>"
    by (simp add: movement_label_def sample_str)
  then show ?thesis
    using body bad fd by (simp add: make_flight_samples)
qed

end
